theory Spec2Isabelle
  imports Complex_Main "HOL-Library.AList" "HOL-Library.Sublist"
begin

section \<open>STL tools: mesh, derived properties, mutation, calculators\<close>

text \<open>
  The development embeds \<^verbatim>\<open>api/core/stl_tools.py\<close> (class \<^verbatim>\<open>STLTools\<close>) and
  \<^verbatim>\<open>api/core/session_manager.py\<close> (class \<^verbatim>\<open>SessionManager\<close>).

  Numbers: the Python code computes with IEEE floating point (numpy arrays of
  32-bit floats, Python floats of 64 bits). Coordinates and derived values are reals
  here. The derived values (area, volume, bounds, means) are computed in exact real
  arithmetic: rounding, overflow and NaN propagation inside these computations are not
  modelled, except that the one place where numpy produces NaN without raising (the mean
  of zero vertices) is an explicit \<open>None\<close>. The mutations store their results as
  32-bit floats, and that store is modelled (\<open>float32\<close> below). Statements that depend
  on the magnitude of the coordinates carry the bound under which the 32-bit
  computation cannot overflow.

  Exceptions are values of type \<open>error\<close>, one constructor per Python exception class,
  carrying the message. The specification's \<^verbatim>\<open>InvalidArgument\<close> and \<^verbatim>\<open>NotLoaded\<close> are
  \<open>ValueError\<close>, its \<^verbatim>\<open>CapacityExceeded\<close> is the \<open>RuntimeError\<close> of \<^verbatim>\<open>create_session\<close>.
\<close>

datatype error =
    ValueError string
  | RuntimeError string
  | FileNotFoundError string
  | OSError string

subsection \<open>Vectors and triangles\<close>

type_synonym vec3 = "real \<times> real \<times> real"
type_synonym triangle = "vec3 \<times> vec3 \<times> vec3"

fun vsub :: "vec3 \<Rightarrow> vec3 \<Rightarrow> vec3" where
  "vsub (a1, a2, a3) (b1, b2, b3) = (a1 - b1, a2 - b2, a3 - b3)"

fun vadd :: "vec3 \<Rightarrow> vec3 \<Rightarrow> vec3" where
  "vadd (a1, a2, a3) (b1, b2, b3) = (a1 + b1, a2 + b2, a3 + b3)"

fun vmul :: "vec3 \<Rightarrow> vec3 \<Rightarrow> vec3" where
  "vmul (a1, a2, a3) (b1, b2, b3) = (a1 * b1, a2 * b2, a3 * b3)"

text \<open>\<^verbatim>\<open>np.cross\<close>, \<^verbatim>\<open>np.dot\<close> and \<^verbatim>\<open>np.linalg.norm\<close> on 3-vectors.\<close>

fun cross :: "vec3 \<Rightarrow> vec3 \<Rightarrow> vec3" where
  "cross (a1, a2, a3) (b1, b2, b3) =
     (a2 * b3 - a3 * b2, a3 * b1 - a1 * b3, a1 * b2 - a2 * b1)"

fun dot :: "vec3 \<Rightarrow> vec3 \<Rightarrow> real" where
  "dot (a1, a2, a3) (b1, b2, b3) = a1 * b1 + a2 * b2 + a3 * b3"

fun linalg_norm :: "vec3 \<Rightarrow> real" where
  "linalg_norm (a1, a2, a3) = sqrt (a1 * a1 + a2 * a2 + a3 * a3)"

fun tolist :: "vec3 \<Rightarrow> real list" where
  "tolist (a1, a2, a3) = [a1, a2, a3]"

subsection \<open>The \<^verbatim>\<open>STLTools\<close> instance\<close>

record bounds =
  min_coords :: vec3
  max_coords :: vec3
  dimensions :: vec3

text \<open>
  \<open>mesh\<close> is \<open>None\<close> before \<^verbatim>\<open>load_file\<close>; \<open>Some ts\<close> holds \<^verbatim>\<open>mesh.vectors\<close>, one entry
  per triangle. Each cache field is the Python attribute: \<open>None\<close> is Python's \<^verbatim>\<open>None\<close>.
  The cached centre of mass is \<open>Some None\<close> when numpy's mean over zero vertices gave
  an array of NaN.
\<close>

record stl_tools =
  mesh :: "triangle list option"
  file_path :: "string option"
  cached_surface_area :: "real option"
  cached_volume :: "real option"
  cached_bounds :: "bounds option"
  cached_center_of_mass :: "vec3 option option"

definition init_stl_tools :: stl_tools where
  "init_stl_tools =
     \<lparr>mesh = None, file_path = None, cached_surface_area = None, cached_volume = None,
      cached_bounds = None, cached_center_of_mass = None\<rparr>"

definition clear_cache :: "stl_tools \<Rightarrow> stl_tools" where
  "clear_cache st =
     st\<lparr>cached_surface_area := None, cached_volume := None,
        cached_bounds := None, cached_center_of_mass := None\<rparr>"

definition ensure_mesh_loaded :: "stl_tools \<Rightarrow> error + triangle list" where
  "ensure_mesh_loaded st =
     (case mesh st of
        None \<Rightarrow> Inl (ValueError ''No mesh loaded. Call load_file() first.'')
      | Some ts \<Rightarrow> Inr ts)"

subsection \<open>Surface area and volume\<close>

fun calculate_triangle_area :: "triangle \<Rightarrow> real" where
  "calculate_triangle_area (v0, v1, v2) =
     0.5 * linalg_norm (cross (vsub v1 v0) (vsub v2 v0))"

text \<open>The accumulation loop of \<^verbatim>\<open>calculate_surface_area\<close>, started at \<^verbatim>\<open>0.0\<close>.\<close>

definition total_area :: "triangle list \<Rightarrow> real" where
  "total_area ts = foldl (\<lambda>acc t. acc + calculate_triangle_area t) 0 ts"

definition calculate_surface_area :: "stl_tools \<Rightarrow> error + (real \<times> stl_tools)" where
  "calculate_surface_area st =
     (case ensure_mesh_loaded st of
        Inl e \<Rightarrow> Inl e
      | Inr ts \<Rightarrow>
          (case cached_surface_area st of
             Some a \<Rightarrow> Inr (a, st)
           | None \<Rightarrow>
               let total = total_area ts
               in Inr (total, st\<lparr>cached_surface_area := Some total\<rparr>)))"

fun signed_tetra :: "triangle \<Rightarrow> real" where
  "signed_tetra (v0, v1, v2) = dot v0 (cross v1 v2) / 6"

text \<open>The accumulation loop of \<^verbatim>\<open>calculate_volume\<close>, before the absolute value.\<close>

definition signed_volume :: "triangle list \<Rightarrow> real" where
  "signed_volume ts = foldl (\<lambda>acc t. acc + signed_tetra t) 0 ts"

definition calculate_volume :: "stl_tools \<Rightarrow> error + (real \<times> stl_tools)" where
  "calculate_volume st =
     (case ensure_mesh_loaded st of
        Inl e \<Rightarrow> Inl e
      | Inr ts \<Rightarrow>
          (case cached_volume st of
             Some v \<Rightarrow> Inr (v, st)
           | None \<Rightarrow>
               let v = \<bar>signed_volume ts\<bar>
               in Inr (v, st\<lparr>cached_volume := Some v\<rparr>)))"

subsection \<open>Bounding box and centre of mass\<close>

text \<open>\<^verbatim>\<open>mesh.vectors.reshape(-1, 3)\<close>: the vertices of all triangles, in order.\<close>

fun triangle_vertices :: "triangle \<Rightarrow> vec3 list" where
  "triangle_vertices (v0, v1, v2) = [v0, v1, v2]"

definition all_vertices :: "triangle list \<Rightarrow> vec3 list" where
  "all_vertices ts = concat (map triangle_vertices ts)"

fun coord_x :: "vec3 \<Rightarrow> real" where "coord_x (x, y, z) = x"
fun coord_y :: "vec3 \<Rightarrow> real" where "coord_y (x, y, z) = y"
fun coord_z :: "vec3 \<Rightarrow> real" where "coord_z (x, y, z) = z"

text \<open>
  \<^verbatim>\<open>np.min(all_vertices, axis=0)\<close> and \<^verbatim>\<open>np.max(all_vertices, axis=0)\<close>: the
  component-wise minimum and maximum over all rows. On zero rows numpy raises
  \<^verbatim>\<open>ValueError\<close>.
\<close>

fun vmin :: "vec3 \<Rightarrow> vec3 \<Rightarrow> vec3" where
  "vmin (a1, a2, a3) (b1, b2, b3) = (min a1 b1, min a2 b2, min a3 b3)"

fun vmax :: "vec3 \<Rightarrow> vec3 \<Rightarrow> vec3" where
  "vmax (a1, a2, a3) (b1, b2, b3) = (max a1 b1, max a2 b2, max a3 b3)"

fun np_min_axis0 :: "vec3 list \<Rightarrow> error + vec3" where
  "np_min_axis0 [] =
     Inl (ValueError ''zero-size array to reduction operation minimum which has no identity'')"
| "np_min_axis0 (v # vs) = Inr (foldl vmin v vs)"

fun np_max_axis0 :: "vec3 list \<Rightarrow> error + vec3" where
  "np_max_axis0 [] =
     Inl (ValueError ''zero-size array to reduction operation maximum which has no identity'')"
| "np_max_axis0 (v # vs) = Inr (foldl vmax v vs)"

text \<open>The computation of \<^verbatim>\<open>get_bounding_box\<close> on the vertex rows.\<close>

definition compute_bounds :: "vec3 list \<Rightarrow> error + bounds" where
  "compute_bounds vs =
     (case np_min_axis0 vs of
        Inl e \<Rightarrow> Inl e
      | Inr mn \<Rightarrow>
          (case np_max_axis0 vs of
             Inl e \<Rightarrow> Inl e
           | Inr mx \<Rightarrow> Inr \<lparr>min_coords = mn, max_coords = mx, dimensions = vsub mx mn\<rparr>))"

definition get_bounding_box :: "stl_tools \<Rightarrow> error + (bounds \<times> stl_tools)" where
  "get_bounding_box st =
     (case ensure_mesh_loaded st of
        Inl e \<Rightarrow> Inl e
      | Inr ts \<Rightarrow>
          (case cached_bounds st of
             Some b \<Rightarrow> Inr (b, st)
           | None \<Rightarrow>
               (case compute_bounds (all_vertices ts) of
                  Inl e \<Rightarrow> Inl e
                | Inr b \<Rightarrow> Inr (b, st\<lparr>cached_bounds := Some b\<rparr>))))"

text \<open>
  \<^verbatim>\<open>np.mean(all_vertices, axis=0)\<close>: with no vertex numpy warns and returns NaN in
  every component, modelled as \<open>None\<close>.
\<close>

definition np_mean_axis0 :: "vec3 list \<Rightarrow> vec3 option" where
  "np_mean_axis0 vs =
     (if vs = [] then None
      else Some (sum_list (map coord_x vs) / real (length vs),
                 sum_list (map coord_y vs) / real (length vs),
                 sum_list (map coord_z vs) / real (length vs)))"

definition get_center_of_mass :: "stl_tools \<Rightarrow> error + (vec3 option \<times> stl_tools)" where
  "get_center_of_mass st =
     (case ensure_mesh_loaded st of
        Inl e \<Rightarrow> Inl e
      | Inr ts \<Rightarrow>
          (case cached_center_of_mass st of
             Some c \<Rightarrow> Inr (c, st)
           | None \<Rightarrow>
               let c = np_mean_axis0 (all_vertices ts)
               in Inr (c, st\<lparr>cached_center_of_mass := Some c\<rparr>)))"

subsection \<open>Aspect ratio and statistics\<close>

text \<open>
  \<^verbatim>\<open>_calculate_aspect_ratio\<close>: \<^verbatim>\<open>np.sort\<close> of the three dimensions, then the largest over
  the smallest when the smallest is positive, else Python's \<^verbatim>\<open>None\<close>.
\<close>

definition calculate_aspect_ratio :: "vec3 \<Rightarrow> real option" where
  "calculate_aspect_ratio dims =
     (let sorted_dims = sort (tolist dims)
      in if sorted_dims ! 0 > 0 then Some (sorted_dims ! 2 / sorted_dims ! 0) else None)"

text \<open>
  Python's built-in \<^verbatim>\<open>min\<close> and \<^verbatim>\<open>max\<close> on a list raise \<^verbatim>\<open>ValueError\<close> on the empty
  list; \<^verbatim>\<open>np.mean\<close> and \<^verbatim>\<open>np.std\<close> (population standard deviation) return NaN there,
  modelled as \<open>None\<close>.
\<close>

fun py_min :: "real list \<Rightarrow> error + real" where
  "py_min [] = Inl (ValueError ''min() arg is an empty sequence'')"
| "py_min (x # xs) = Inr (foldl min x xs)"

fun py_max :: "real list \<Rightarrow> error + real" where
  "py_max [] = Inl (ValueError ''max() arg is an empty sequence'')"
| "py_max (x # xs) = Inr (foldl max x xs)"

definition np_mean :: "real list \<Rightarrow> real option" where
  "np_mean xs = (if xs = [] then None else Some (sum_list xs / real (length xs)))"

definition np_std :: "real list \<Rightarrow> real option" where
  "np_std xs =
     (case np_mean xs of
        None \<Rightarrow> None
      | Some m \<Rightarrow> Some (sqrt (sum_list (map (\<lambda>x. \<bar>x - m\<bar> * \<bar>x - m\<bar>) xs) / real (length xs))))"

record distribution =
  dist_min :: real
  dist_max :: real
  dist_mean :: "real option"
  dist_std :: "real option"

definition distribution_of :: "real list \<Rightarrow> error + distribution" where
  "distribution_of xs =
     (case py_min xs of
        Inl e \<Rightarrow> Inl e
      | Inr lo \<Rightarrow>
          (case py_max xs of
             Inl e \<Rightarrow> Inl e
           | Inr hi \<Rightarrow>
               Inr \<lparr>dist_min = lo, dist_max = hi, dist_mean = np_mean xs, dist_std = np_std xs\<rparr>))"

fun triangle_edges :: "triangle \<Rightarrow> real list" where
  "triangle_edges (v0, v1, v2) =
     [linalg_norm (vsub v1 v0), linalg_norm (vsub v2 v1), linalg_norm (vsub v0 v2)]"

record statistics =
  triangle_count :: nat
  vertex_count :: nat
  surface_area :: real
  volume :: real
  center_of_mass :: "real list option"
  bounding_box :: bounds
  triangle_areas :: distribution
  edge_lengths :: distribution
  aspect_ratio :: "real option"
  surface_area_to_volume_ratio :: "real option"

definition get_mesh_statistics :: "stl_tools \<Rightarrow> error + (statistics \<times> stl_tools)" where
  "get_mesh_statistics st =
     (case ensure_mesh_loaded st of
        Inl e \<Rightarrow> Inl e
      | Inr ts \<Rightarrow>
     (case get_bounding_box st of
        Inl e \<Rightarrow> Inl e
      | Inr (b, st1) \<Rightarrow>
     (case get_center_of_mass st1 of
        Inl e \<Rightarrow> Inl e
      | Inr (center, st2) \<Rightarrow>
     (case calculate_surface_area st2 of
        Inl e \<Rightarrow> Inl e
      | Inr (area, st3) \<Rightarrow>
     (case calculate_volume st3 of
        Inl e \<Rightarrow> Inl e
      | Inr (vol, st4) \<Rightarrow>
     (case distribution_of (map calculate_triangle_area ts) of
        Inl e \<Rightarrow> Inl e
      | Inr areas \<Rightarrow>
     (case distribution_of (concat (map triangle_edges ts)) of
        Inl e \<Rightarrow> Inl e
      | Inr edges \<Rightarrow>
          Inr (\<lparr>triangle_count = length ts,
                vertex_count = length ts * 3,
                surface_area = area,
                volume = vol,
                center_of_mass = map_option tolist center,
                bounding_box = b,
                triangle_areas = areas,
                edge_lengths = edges,
                aspect_ratio = calculate_aspect_ratio (dimensions b),
                surface_area_to_volume_ratio = (if vol > 0 then Some (area / vol) else None)\<rparr>,
               st4))))))))"

subsection \<open>Validation\<close>

fun digit_char :: "nat \<Rightarrow> char" where
  "digit_char n = char_of (48 + n)"

fun string_of_nat :: "nat \<Rightarrow> string" where
  "string_of_nat n =
     (if n < 10 then [digit_char n] else string_of_nat (n div 10) @ [digit_char (n mod 10)])"

record validation =
  is_valid :: bool
  issues :: "string list"
  warnings :: "string list"
  degenerate_triangles :: "nat list"

text \<open>The loop over \<^verbatim>\<open>enumerate(self.mesh.vectors)\<close> that collects the degenerate indices.\<close>

definition find_degenerate :: "triangle list \<Rightarrow> nat list" where
  "find_degenerate ts =
     map fst (filter (\<lambda>(i, t). calculate_triangle_area t < 1 / 10 ^ 10) (enumerate 0 ts))"

fun np_any_less :: "vec3 \<Rightarrow> real \<Rightarrow> bool" where
  "np_any_less (d1, d2, d3) c = (d1 < c \<or> d2 < c \<or> d3 < c)"

definition validate_mesh :: "stl_tools \<Rightarrow> error + (validation \<times> stl_tools)" where
  "validate_mesh st =
     (case ensure_mesh_loaded st of
        Inl e \<Rightarrow> Inl e
      | Inr ts \<Rightarrow>
          let degenerate = find_degenerate ts;
              issues0 = (if degenerate \<noteq> []
                         then [''Found '' @ string_of_nat (length degenerate) @ '' degenerate triangles'']
                         else [])
          in (case get_bounding_box st of
                Inl e \<Rightarrow> Inl e
              | Inr (b, st1) \<Rightarrow>
                  let warnings1 = (if np_any_less (dimensions b) (1 / 10 ^ 6)
                                   then [''Mesh has very small dimensions in one or more axes'']
                                   else [])
                  in (case calculate_volume st1 of
                        Inl e \<Rightarrow> Inl e
                      | Inr (vol, st2) \<Rightarrow>
                          let warnings2 = (if vol < 1 / 10 ^ 10
                                           then warnings1 @ [''Mesh has very small or zero volume'']
                                           else warnings1)
                          in Inr (\<lparr>is_valid = (length issues0 = 0),
                                    issues = issues0,
                                    warnings = warnings2,
                                    degenerate_triangles = degenerate\<rparr>,
                                  st2))))"

subsection \<open>Single-precision storage\<close>

text \<open>
  \<^verbatim>\<open>mesh.vectors\<close> is a numpy array of 32-bit floats. An in-place update
  (\<^verbatim>\<open>*=\<close>, \<^verbatim>\<open>+=\<close>) with a 64-bit operand computes in double precision and stores the
  result back as a 32-bit float. \<open>float32\<close> is that store: rounding to the nearest
  binary32 number, ties to the even significand, with gradual underflow (below
  \<^verbatim>\<open>2^-126\<close> the spacing stays \<^verbatim>\<open>2^-149\<close>, so magnitudes up to \<^verbatim>\<open>2^-150\<close> become 0).
  The product or sum itself is taken exactly, and a result of magnitude \<^verbatim>\<open>2^128\<close> or
  more, which numpy stores as an infinity, has no counterpart among the reals:
  \<open>float32_value\<close> names the reals that a 32-bit float holds exactly.
\<close>

definition pow2 :: "int \<Rightarrow> real" where
  "pow2 e = (if 0 \<le> e then 2 ^ nat e else 1 / 2 ^ nat (- e))"

definition round_half_even :: "real \<Rightarrow> int" where
  "round_half_even y =
     (let f = \<lfloor>y\<rfloor>; r = y - of_int f
      in if r < 1 / 2 then f
         else if r > 1 / 2 then f + 1
         else if even f then f else f + 1)"

definition float32_exponent :: "real \<Rightarrow> int" where
  "float32_exponent x = max \<lfloor>log 2 \<bar>x\<bar>\<rfloor> (- 126)"

definition float32 :: "real \<Rightarrow> real" where
  "float32 x =
     (if x = 0 then 0
      else of_int (round_half_even (x / pow2 (float32_exponent x - 23))) *
           pow2 (float32_exponent x - 23))"


fun vfloat32 :: "vec3 \<Rightarrow> vec3" where
  "vfloat32 (a1, a2, a3) = (float32 a1, float32 a2, float32 a3)"

subsection \<open>Mutation: scale and translate\<close>

text \<open>
  The argument of \<^verbatim>\<open>scale_mesh\<close> has type \<^verbatim>\<open>Union[float, List[float]]\<close>: \<open>Scalar\<close> is the
  branch \<^verbatim>\<open>isinstance(scale_factor, (int, float))\<close>, \<open>Factors\<close> a list of any length.
\<close>

datatype scale_factor = Scalar real | Factors "real list"

text \<open>
  \<^verbatim>\<open>self.mesh.vectors *= np.array([fx, fy, fz])\<close> and \<^verbatim>\<open>+=\<close>: numpy broadcasts the
  3-vector over every vertex of every triangle and stores each result as a 32-bit
  float.
\<close>

fun map_triangle :: "(vec3 \<Rightarrow> vec3) \<Rightarrow> triangle \<Rightarrow> triangle" where
  "map_triangle f (v0, v1, v2) = (f v0, f v1, f v2)"

definition scale_vectors :: "vec3 \<Rightarrow> triangle list \<Rightarrow> triangle list" where
  "scale_vectors k ts = map (map_triangle (\<lambda>v. vfloat32 (vmul v k))) ts"

definition translate_vectors :: "vec3 \<Rightarrow> triangle list \<Rightarrow> triangle list" where
  "translate_vectors d ts = map (map_triangle (\<lambda>v. vfloat32 (vadd v d))) ts"

text \<open>
  The body of the \<^verbatim>\<open>try\<close> block of \<^verbatim>\<open>scale_mesh\<close>: it either raises or returns the
  mutated instance.
\<close>

definition scale_mesh_try :: "scale_factor \<Rightarrow> triangle list \<Rightarrow> stl_tools \<Rightarrow> error + stl_tools" where
  "scale_mesh_try sf ts st =
     (case (case sf of
              Scalar s \<Rightarrow> Inr [s, s, s]
            | Factors fs \<Rightarrow>
                if length fs \<noteq> 3
                then Inl (ValueError ''Scale factor must be a single number or list of 3 numbers'')
                else Inr fs) of
        Inl e \<Rightarrow> Inl e
      | Inr fs \<Rightarrow>
          Inr (clear_cache (st\<lparr>mesh := Some (scale_vectors (fs ! 0, fs ! 1, fs ! 2) ts)\<rparr>)))"

text \<open>
  \<^verbatim>\<open>scale_mesh\<close>: \<^verbatim>\<open>_ensure_mesh_loaded\<close> is outside the \<^verbatim>\<open>try\<close> and raises to the
  caller; an exception of the body is caught, printed, and reported as \<^verbatim>\<open>False\<close>.
\<close>

definition scale_mesh :: "scale_factor \<Rightarrow> stl_tools \<Rightarrow> error + (bool \<times> stl_tools)" where
  "scale_mesh sf st =
     (case ensure_mesh_loaded st of
        Inl e \<Rightarrow> Inl e
      | Inr ts \<Rightarrow>
          (case scale_mesh_try sf ts st of
             Inl e \<Rightarrow> Inr (False, st)
           | Inr st' \<Rightarrow> Inr (True, st')))"

definition translate_mesh_try :: "real list \<Rightarrow> triangle list \<Rightarrow> stl_tools \<Rightarrow> error + stl_tools" where
  "translate_mesh_try translation ts st =
     (if length translation \<noteq> 3
      then Inl (ValueError ''Translation must be a list of 3 numbers'')
      else Inr (clear_cache
        (st\<lparr>mesh := Some (translate_vectors
           (translation ! 0, translation ! 1, translation ! 2) ts)\<rparr>)))"

definition translate_mesh :: "real list \<Rightarrow> stl_tools \<Rightarrow> error + (bool \<times> stl_tools)" where
  "translate_mesh translation st =
     (case ensure_mesh_loaded st of
        Inl e \<Rightarrow> Inl e
      | Inr ts \<Rightarrow>
          (case translate_mesh_try translation ts st of
             Inl e \<Rightarrow> Inr (False, st)
           | Inr st' \<Rightarrow> Inr (True, st')))"

subsection \<open>Resin cost\<close>

record resin_cost =
  volume_mm3 :: real
  volume_cm3 :: real
  mass_g :: real
  mass_kg :: real
  cost :: real

definition volume_unit_message :: string where
  "volume_unit_message =
     ''volume_unit must be '' @ [CHR 0x27] @ ''mm3'' @ [CHR 0x27] @ '' or '' @
     [CHR 0x27] @ ''cm3'' @ [CHR 0x27]"

definition estimate_resin_cost ::
  "real \<Rightarrow> real \<Rightarrow> string \<Rightarrow> stl_tools \<Rightarrow> error + (resin_cost \<times> stl_tools)" where
  "estimate_resin_cost resin_density_g_cm3 resin_price_per_kg volume_unit st =
     (case ensure_mesh_loaded st of
        Inl e \<Rightarrow> Inl e
      | Inr ts \<Rightarrow>
     (case calculate_volume st of
        Inl e \<Rightarrow> Inl e
      | Inr (v_mm3, st1) \<Rightarrow>
     (case (if volume_unit = ''mm3'' then Inr (v_mm3 / 1000)
            else if volume_unit = ''cm3'' then Inr v_mm3
            else Inl (ValueError volume_unit_message)) of
        Inl e \<Rightarrow> Inl e
      | Inr v_cm3 \<Rightarrow>
          let m_g = v_cm3 * resin_density_g_cm3;
              m_kg = m_g / 1000;
              c = m_kg * resin_price_per_kg
          in Inr (\<lparr>volume_mm3 = v_mm3, volume_cm3 = v_cm3, mass_g = m_g, mass_kg = m_kg,
                    cost = c\<rparr>, st1))))"

text \<open>
  \<^verbatim>\<open>ResinCostRequest\<close> of \<^verbatim>\<open>api/core/models.py\<close>: the request schema of the HTTP layer
  declares both numbers \<^verbatim>\<open>gt=0\<close> and the unit as the enumeration \<^verbatim>\<open>VolumeUnit\<close>; a
  request that violates this is rejected before the handler runs. \<open>True\<close> means
  accepted.
\<close>

definition ResinCostRequest_valid :: "real \<Rightarrow> real \<Rightarrow> string \<Rightarrow> bool" where
  "ResinCostRequest_valid resin_density_g_cm3 resin_price_per_kg volume_unit =
     (resin_density_g_cm3 > 0 \<and> resin_price_per_kg > 0 \<and>
      (volume_unit = ''mm3'' \<or> volume_unit = ''cm3''))"

subsection \<open>Coverage efficiency\<close>

text \<open>
  \<^verbatim>\<open>_calculate_coverage_efficiency\<close>. The conditional expression evaluates its
  condition \<^verbatim>\<open>self.calculate_volume() > 0\<close> first, and only then the quotient.
\<close>

definition calculate_coverage_efficiency :: "stl_tools \<Rightarrow> error + (real \<times> stl_tools)" where
  "calculate_coverage_efficiency st =
     (case ensure_mesh_loaded st of
        Inl e \<Rightarrow> Inl e
      | Inr ts \<Rightarrow>
     (case get_bounding_box st of
        Inl e \<Rightarrow> Inl e
      | Inr (b, st1) \<Rightarrow>
     (case calculate_volume st1 of
        Inl e \<Rightarrow> Inl e
      | Inr (v, st2) \<Rightarrow>
     (case (if v > 0
            then (case calculate_surface_area st2 of
                    Inl e \<Rightarrow> Inl e
                  | Inr (a, st3) \<Rightarrow>
                      (case calculate_volume st3 of
                         Inl e \<Rightarrow> Inl e
                       | Inr (v', st4) \<Rightarrow> Inr (a / v', st4)))
            else Inr (0, st2)) of
        Inl e \<Rightarrow> Inl e
      | Inr (sa_v_ratio, st5) \<Rightarrow>
          let aspect = (case calculate_aspect_ratio (dimensions b) of
                          None \<Rightarrow> 1
                        | Some r \<Rightarrow> r);
              aspect_factor = min (aspect / 10) 1;
              sa_v_factor = min (sa_v_ratio / 10) 1;
              efficiency = 1 - aspect_factor * 0.15 - sa_v_factor * 0.15
          in Inr (max efficiency 0.7, st5)))))"

text \<open>
  The formula as the specification words it, for comparison: the quotient
  \<open>area / volume\<close> has no value when the volume is zero.
\<close>

definition spec_quotient :: "real \<Rightarrow> real \<Rightarrow> real option" where
  "spec_quotient a v = (if v = 0 then None else Some (a / v))"

definition spec_coverage_efficiency :: "real option \<Rightarrow> real \<Rightarrow> real \<Rightarrow> real option" where
  "spec_coverage_efficiency aspect a v =
     (case spec_quotient a v of
        None \<Rightarrow> None
      | Some q \<Rightarrow>
          Some (max (1 - 0.15 * min ((case aspect of None \<Rightarrow> 1 | Some r \<Rightarrow> r) / 10) 1
                       - 0.15 * min (q / 10) 1) 0.7))"

subsection \<open>Loaded instances and the test cube\<close>

text \<open>
  The instance right after a successful \<^verbatim>\<open>load_file\<close> that parsed the triangles \<open>ts\<close>
  from \<open>path\<close>: mesh and path set, cache cleared.
\<close>

definition loaded :: "string \<Rightarrow> triangle list \<Rightarrow> stl_tools" where
  "loaded path ts = clear_cache (init_stl_tools\<lparr>mesh := Some ts, file_path := Some path\<rparr>)"

text \<open>
  The state invariant of an instance: every cached value that is present is the value
  of the current vertices. It holds after \<^verbatim>\<open>load_file\<close> and every method keeps it.
\<close>

definition cache_consistent :: "stl_tools \<Rightarrow> bool" where
  "cache_consistent st =
     (case mesh st of
        None \<Rightarrow> True
      | Some ts \<Rightarrow>
          (cached_surface_area st = None \<or> cached_surface_area st = Some (total_area ts)) \<and>
          (cached_volume st = None \<or> cached_volume st = Some \<bar>signed_volume ts\<bar>) \<and>
          (cached_bounds st = None \<or>
             map_option Inr (cached_bounds st) = Some (compute_bounds (all_vertices ts))) \<and>
          (cached_center_of_mass st = None \<or>
             cached_center_of_mass st = Some (np_mean_axis0 (all_vertices ts))))"


text \<open>
  \<^verbatim>\<open>create_test_cube\<close> of \<^verbatim>\<open>tests/test_stl_tools.py\<close>: the unit cube \<open>[0,1]\<^sup>3\<close> as 12
  triangles over 8 corners.
\<close>

definition cube_vertices :: "vec3 list" where
  "cube_vertices =
     [(0, 0, 0), (1, 0, 0), (1, 1, 0), (0, 1, 0),
      (0, 0, 1), (1, 0, 1), (1, 1, 1), (0, 1, 1)]"

definition cube_faces :: "(nat \<times> nat \<times> nat) list" where
  "cube_faces =
     [(0, 3, 1), (1, 3, 2), (0, 4, 7), (0, 7, 3), (1, 2, 6), (1, 6, 5),
      (2, 3, 7), (2, 7, 6), (0, 1, 5), (0, 5, 4), (4, 5, 6), (4, 6, 7)]"

definition create_test_cube :: "triangle list" where
  "create_test_cube =
     map (\<lambda>(i, j, k). (cube_vertices ! i, cube_vertices ! j, cube_vertices ! k)) cube_faces"

text \<open>A flat mesh of one triangle in the plane \<open>z = 0\<close>: positive area, zero volume.\<close>

definition flat_triangle :: "triangle list" where
  "flat_triangle = [((0, 0, 0), (1, 0, 0), (0, 1, 0))]"

definition cube_tools :: stl_tools where
  "cube_tools = loaded ''cube.stl'' create_test_cube"

definition flat_tools :: stl_tools where
  "flat_tools = loaded ''flat.stl'' flat_triangle"



text \<open>The unit cube scaled by 10: volume 1000.\<close>

definition big_cube_tools :: stl_tools where
  "big_cube_tools = loaded ''cube10.stl'' (scale_vectors (10, 10, 10) create_test_cube)"

text \<open>All coordinates of a mesh, vertex by vertex.\<close>

definition mesh_coords :: "triangle list \<Rightarrow> real list" where
  "mesh_coords ts = concat (map tolist (all_vertices ts))"



text \<open>
  The scenario of the invalidation test: read volume and area, scale, read both again.
  The result pairs the two readings.
\<close>

definition read_scale_read ::
  "scale_factor \<Rightarrow> stl_tools \<Rightarrow> error + ((real \<times> real) \<times> (real \<times> real))" where
  "read_scale_read sf st =
     (case calculate_volume st of
        Inl e \<Rightarrow> Inl e
      | Inr (v, st1) \<Rightarrow>
     (case calculate_surface_area st1 of
        Inl e \<Rightarrow> Inl e
      | Inr (a, st2) \<Rightarrow>
     (case scale_mesh sf st2 of
        Inl e \<Rightarrow> Inl e
      | Inr (ok, st3) \<Rightarrow>
     (case calculate_volume st3 of
        Inl e \<Rightarrow> Inl e
      | Inr (v', st4) \<Rightarrow>
     (case calculate_surface_area st4 of
        Inl e \<Rightarrow> Inl e
      | Inr (a', st5) \<Rightarrow> Inr ((v, a), (v', a')))))))"

section \<open>Session manager\<close>

subsection \<open>The disk\<close>

text \<open>
  \<^verbatim>\<open>SessionManager\<close> reaches the disk through \<^verbatim>\<open>os.path.join\<close>, \<^verbatim>\<open>os.makedirs\<close>,
  \<^verbatim>\<open>aiofiles.open\<close>, \<^verbatim>\<open>os.path.exists\<close> and \<^verbatim>\<open>shutil.rmtree\<close>. These library calls
  are modelled on a POSIX file tree without symbolic links or permissions: a map from
  resolved paths (lists of names, the empty list being the root, which is also the
  working directory) to nodes. File contents are byte strings.
\<close>

type_synonym path = "string list"

datatype node = Dir | File string

type_synonym filesystem = "path \<Rightarrow> node option"

definition empty_disk :: filesystem where
  "empty_disk = (\<lambda>p. None)([] \<mapsto> Dir)"

text \<open>Splitting a path string at every \<open>/\<close>.\<close>

fun split_slash :: "string \<Rightarrow> string list" where
  "split_slash [] = [[]]"
| "split_slash (c # cs) =
     (if c = CHR ''/'' then [] # split_slash cs
      else (case split_slash cs of
              [] \<Rightarrow> [[c]]
            | w # ws \<Rightarrow> (c # w) # ws))"

text \<open>
  Path resolution as the kernel does it: every name is looked up in the directory
  reached so far; \<open>.\<close> and empty names stay, \<open>..\<close> goes to the parent. The last name
  need not exist.
\<close>

fun walk :: "filesystem \<Rightarrow> path \<Rightarrow> string list \<Rightarrow> error + path" where
  "walk d cur [] = Inr cur"
| "walk d cur (c # cs) =
     (case d cur of
        None \<Rightarrow> Inl (FileNotFoundError ''No such file or directory'')
      | Some (File x) \<Rightarrow> Inl (OSError ''Not a directory'')
      | Some Dir \<Rightarrow>
          if c = [] \<or> c = ''.'' then walk d cur cs
          else if c = ''..'' then walk d (butlast cur) cs
          else walk d (cur @ [c]) cs)"

definition resolve :: "filesystem \<Rightarrow> string \<Rightarrow> error + path" where
  "resolve d p = walk d [] (split_slash p)"

text \<open>\<^verbatim>\<open>os.path.join(a, b)\<close> of \<^verbatim>\<open>posixpath\<close>.\<close>

definition path_join :: "string \<Rightarrow> string \<Rightarrow> string" where
  "path_join a b =
     (if b \<noteq> [] \<and> hd b = CHR ''/'' then b
      else if a = [] \<or> last a = CHR ''/'' then a @ b
      else a @ ''/'' @ b)"

text \<open>\<^verbatim>\<open>os.makedirs(p, exist_ok=True)\<close>: every missing directory on the way is created.\<close>

fun makedirs_walk :: "filesystem \<Rightarrow> path \<Rightarrow> string list \<Rightarrow> error + filesystem" where
  "makedirs_walk d cur [] =
     (if d cur = Some Dir then Inr d else Inl (OSError ''File exists''))"
| "makedirs_walk d cur (c # cs) =
     (case d cur of
        None \<Rightarrow> Inl (FileNotFoundError ''No such file or directory'')
      | Some (File x) \<Rightarrow> Inl (OSError ''Not a directory'')
      | Some Dir \<Rightarrow>
          if c = [] \<or> c = ''.'' then makedirs_walk d cur cs
          else if c = ''..'' then makedirs_walk d (butlast cur) cs
          else (case d (cur @ [c]) of
                  None \<Rightarrow> makedirs_walk (d(cur @ [c] \<mapsto> Dir)) (cur @ [c]) cs
                | Some n \<Rightarrow> makedirs_walk d (cur @ [c]) cs))"

definition makedirs :: "filesystem \<Rightarrow> string \<Rightarrow> error + filesystem" where
  "makedirs d p = makedirs_walk d [] (split_slash p)"

text \<open>Opening \<open>p\<close> with mode \<^verbatim>\<open>'wb'\<close> and writing \<open>content\<close>.\<close>

definition write_file :: "filesystem \<Rightarrow> string \<Rightarrow> string \<Rightarrow> error + filesystem" where
  "write_file d p content =
     (case resolve d p of
        Inl e \<Rightarrow> Inl e
      | Inr q \<Rightarrow>
          if q = [] \<or> d q = Some Dir then Inl (OSError ''Is a directory'')
          else if d (butlast q) \<noteq> Some Dir
          then Inl (FileNotFoundError ''No such file or directory'')
          else Inr (d(q \<mapsto> File content)))"

definition read_file :: "filesystem \<Rightarrow> string \<Rightarrow> error + string" where
  "read_file d p =
     (case resolve d p of
        Inl e \<Rightarrow> Inl e
      | Inr q \<Rightarrow>
          (case d q of
             None \<Rightarrow> Inl (FileNotFoundError ''No such file or directory'')
           | Some Dir \<Rightarrow> Inl (OSError ''Is a directory'')
           | Some (File content) \<Rightarrow> Inr content))"

definition path_exists :: "filesystem \<Rightarrow> string \<Rightarrow> bool" where
  "path_exists d p = (case resolve d p of Inl e \<Rightarrow> False | Inr q \<Rightarrow> d q \<noteq> None)"

text \<open>\<^verbatim>\<open>shutil.rmtree(p)\<close>: the directory and everything below it goes.\<close>

definition rmtree :: "filesystem \<Rightarrow> string \<Rightarrow> error + filesystem" where
  "rmtree d p =
     (case resolve d p of
        Inl e \<Rightarrow> Inl e
      | Inr q \<Rightarrow>
          (case d q of
             None \<Rightarrow> Inl (FileNotFoundError ''No such file or directory'')
           | Some (File x) \<Rightarrow> Inl (OSError ''Not a directory'')
           | Some Dir \<Rightarrow> Inr (\<lambda>r. if prefix q r then None else d r)))"

subsection \<open>Loading a file into an instance\<close>

text \<open>
  \<^verbatim>\<open>STLTools.load_file\<close>. The STL parser \<^verbatim>\<open>mesh.Mesh.from_file\<close> belongs to the numpy-stl
  library and is a parameter: \<open>parse bytes\<close> is \<open>None\<close> when the library raises.
\<close>

definition load_file ::
  "(string \<Rightarrow> triangle list option) \<Rightarrow> filesystem \<Rightarrow> string \<Rightarrow> stl_tools \<Rightarrow>
     error + (bool \<times> stl_tools)" where
  "load_file parse d p st =
     (if \<not> path_exists d p then Inl (FileNotFoundError p)
      else (case read_file d p of
              Inl e \<Rightarrow> Inl (ValueError ''Error loading STL file'')
            | Inr content \<Rightarrow>
                (case parse content of
                   None \<Rightarrow> Inl (ValueError ''Error loading STL file'')
                 | Some ts \<Rightarrow>
                     Inr (True, clear_cache (st\<lparr>mesh := Some ts, file_path := Some p\<rparr>)))))"

subsection \<open>The manager\<close>

text \<open>
  A session record. The two times are the instants that the code stores as ISO strings
  and reads back with \<^verbatim>\<open>fromisoformat(...).timestamp()\<close>, in seconds.
\<close>

record session =
  filename :: string
  session_file_path :: string
  file_size :: nat
  upload_time :: real
  last_accessed :: real
  session_dir :: string

text \<open>
  The dictionaries \<^verbatim>\<open>sessions\<close> and \<^verbatim>\<open>stl_instances\<close> are association lists in insertion
  order. \<^verbatim>\<open>stl_instances\<close> and the \<^verbatim>\<open>lru_cache\<close> of \<^verbatim>\<open>_get_stl_tools_cached\<close> hold
  references to \<^verbatim>\<open>STLTools\<close> objects: addresses into \<open>objects\<close>, the process's object
  store, with \<open>next_ref\<close> the next free address. \<open>disk\<close> is the file tree.
\<close>

record session_manager =
  upload_dir :: string
  session_timeout :: real
  max_sessions :: int
  sessions :: "(string \<times> session) list"
  stl_instances :: "(string \<times> nat) list"
  cache_hits :: nat
  cache_misses :: nat
  lru :: "(string \<times> nat option) list"
  objects :: "nat \<Rightarrow> stl_tools option"
  next_ref :: nat
  disk :: filesystem

definition delete_session :: "string \<Rightarrow> session_manager \<Rightarrow> bool \<times> session_manager" where
  "delete_session session_id m =
     (case map_of (sessions m) session_id of
        None \<Rightarrow> (False, m)
      | Some s \<Rightarrow>
          let m1 = m\<lparr>stl_instances := AList.delete session_id (stl_instances m), lru := []\<rparr>
          in if path_exists (disk m1) (session_dir s)
             then (case rmtree (disk m1) (session_dir s) of
                     Inl e \<Rightarrow> (False, m1)
                   | Inr d' \<Rightarrow>
                       (True, m1\<lparr>disk := d',
                                 sessions := AList.delete session_id (sessions m1)\<rparr>))
             else (True, m1\<lparr>sessions := AList.delete session_id (sessions m1)\<rparr>))"

definition expired :: "real \<Rightarrow> session_manager \<Rightarrow> session \<Rightarrow> bool" where
  "expired current_time m s = (current_time - last_accessed s > session_timeout m)"

definition cleanup_expired_sessions :: "real \<Rightarrow> session_manager \<Rightarrow> nat \<times> session_manager" where
  "cleanup_expired_sessions current_time m =
     (let expired_sessions = map fst (filter (\<lambda>(sid, s). expired current_time m s) (sessions m))
      in (length expired_sessions,
          foldl (\<lambda>m' sid. snd (delete_session sid m')) m expired_sessions))"

text \<open>
  \<^verbatim>\<open>create_session\<close>. \<open>sweep_time\<close> is the clock read by the sweep, \<open>now\<close> the one read
  for the record, \<open>new_id\<close> the value of \<^verbatim>\<open>str(uuid.uuid4())\<close>.
\<close>

definition create_session ::
  "real \<Rightarrow> real \<Rightarrow> string \<Rightarrow> string \<Rightarrow> string \<Rightarrow> session_manager \<Rightarrow>
     (error + (string \<times> string)) \<times> session_manager" where
  "create_session sweep_time now new_id file_content fname m =
     (let full = (int (length (sessions m)) \<ge> max_sessions m);
          m1 = (if full then snd (cleanup_expired_sessions sweep_time m) else m)
      in if full \<and> int (length (sessions m1)) \<ge> max_sessions m1
         then (Inl (RuntimeError ''Maximum number of sessions reached''), m1)
         else
           let sdir = path_join (upload_dir m1) new_id
           in (case makedirs (disk m1) sdir of
                 Inl e \<Rightarrow> (Inl e, m1)
               | Inr d1 \<Rightarrow>
                   let fpath = path_join sdir fname
                   in (case write_file d1 fpath file_content of
                         Inl e \<Rightarrow> (Inl e, m1\<lparr>disk := d1\<rparr>)
                       | Inr d2 \<Rightarrow>
                           (Inr (new_id, fpath),
                            m1\<lparr>disk := d2,
                               sessions := AList.update new_id
                                 \<lparr>filename = fname, session_file_path = fpath,
                                  file_size = length file_content, upload_time = now,
                                  last_accessed = now, session_dir = sdir\<rparr>
                                 (sessions m1)\<rparr>))))"

definition get_session :: "real \<Rightarrow> string \<Rightarrow> session_manager \<Rightarrow> session option \<times> session_manager" where
  "get_session now session_id m =
     (case map_of (sessions m) session_id of
        None \<Rightarrow> (None, m)
      | Some s \<Rightarrow>
          let s' = s\<lparr>last_accessed := now\<rparr>
          in (Some s', m\<lparr>sessions := AList.update session_id s' (sessions m)\<rparr>))"

text \<open>
  The body of \<^verbatim>\<open>_get_stl_tools_cached\<close>: a new object is loaded from the session's file;
  any exception is caught and gives \<^verbatim>\<open>None\<close>.
\<close>

definition get_stl_tools_body ::
  "(string \<Rightarrow> triangle list option) \<Rightarrow> string \<Rightarrow> session_manager \<Rightarrow>
     nat option \<times> session_manager" where
  "get_stl_tools_body parse session_id m =
     (case map_of (sessions m) session_id of
        None \<Rightarrow> (None, m)
      | Some s \<Rightarrow>
          (case load_file parse (disk m) (session_file_path s) init_stl_tools of
             Inl e \<Rightarrow> (None, m)
           | Inr (ok, st) \<Rightarrow>
               (Some (next_ref m),
                m\<lparr>objects := (objects m)(next_ref m \<mapsto> st), next_ref := Suc (next_ref m)\<rparr>)))"

text \<open>
  The decorator \<^verbatim>\<open>@lru_cache(maxsize=100)\<close>: results, \<^verbatim>\<open>None\<close> included, are kept by
  session id, most recently used first, at most 100 of them.
\<close>

definition get_stl_tools_cached ::
  "(string \<Rightarrow> triangle list option) \<Rightarrow> string \<Rightarrow> session_manager \<Rightarrow>
     nat option \<times> session_manager" where
  "get_stl_tools_cached parse session_id m =
     (case map_of (lru m) session_id of
        Some res \<Rightarrow> (res, m\<lparr>lru := (session_id, res) # AList.delete session_id (lru m)\<rparr>)
      | None \<Rightarrow>
          (case get_stl_tools_body parse session_id m of
             (res, m1) \<Rightarrow> (res, m1\<lparr>lru := take 100 ((session_id, res) # lru m1)\<rparr>)))"

definition get_stl_tools ::
  "(string \<Rightarrow> triangle list option) \<Rightarrow> string \<Rightarrow> session_manager \<Rightarrow>
     nat option \<times> session_manager" where
  "get_stl_tools parse session_id m =
     (case map_of (sessions m) session_id of
        None \<Rightarrow> (None, m\<lparr>cache_misses := cache_misses m + 1\<rparr>)
      | Some s \<Rightarrow>
          (case map_of (stl_instances m) session_id of
             Some r \<Rightarrow> (Some r, m\<lparr>cache_hits := cache_hits m + 1\<rparr>)
           | None \<Rightarrow>
               (case get_stl_tools_cached parse session_id m of
                  (Some r, m1) \<Rightarrow>
                    (Some r, m1\<lparr>stl_instances := AList.update session_id r (stl_instances m1),
                                  cache_hits := cache_hits m1 + 1\<rparr>)
                | (None, m1) \<Rightarrow> (None, m1\<lparr>cache_misses := cache_misses m1 + 1\<rparr>))))"

text \<open>
  \<^verbatim>\<open>SessionManager.__init__\<close> with an explicit upload directory, on a given disk.
\<close>

definition new_session_manager ::
  "string \<Rightarrow> real \<Rightarrow> int \<Rightarrow> filesystem \<Rightarrow> error + session_manager" where
  "new_session_manager dir timeout limit d =
     (case makedirs d dir of
        Inl e \<Rightarrow> Inl e
      | Inr d' \<Rightarrow>
          Inr \<lparr>upload_dir = dir, session_timeout = timeout, max_sessions = limit,
               sessions = [], stl_instances = [], cache_hits = 0, cache_misses = 0,
               lru = [], objects = (\<lambda>r. None), next_ref = 0, disk = d'\<rparr>)"

subsection \<open>A small store\<close>

text \<open>
  A manager for at most two sessions with upload directory \<open>up\<close> on an otherwise empty
  disk, and the stores reached from it by two uploads (ids \<open>a\<close> and \<open>b\<close>, the second
  with the client-supplied file name \<open>../a/n.stl\<close>), by materialising \<open>b\<close>, and by
  deleting \<open>a\<close>. The parser accepts every file.
\<close>

definition store0 :: session_manager where
  "store0 =
     \<lparr>upload_dir = ''up'', session_timeout = 3600, max_sessions = 2,
      sessions = [], stl_instances = [], cache_hits = 0, cache_misses = 0,
      lru = [], objects = (\<lambda>r. None), next_ref = 0,
      disk = empty_disk([''up''] \<mapsto> Dir)\<rparr>"

definition store1 :: session_manager where
  "store1 = snd (create_session 0 0 ''a'' ''solid a'' ''m.stl'' store0)"

definition store2 :: session_manager where
  "store2 = snd (create_session 1 1 ''b'' ''solid b'' ''../a/n.stl'' store1)"

definition accepting_parser :: "string \<Rightarrow> triangle list option" where
  "accepting_parser content = Some flat_triangle"

definition store3 :: session_manager where
  "store3 = snd (get_stl_tools accepting_parser ''b'' store2)"

definition store4 :: session_manager where
  "store4 = snd (delete_session ''a'' store3)"

text \<open>The disks and session records that these steps produce, written out.\<close>

definition disk0 :: filesystem where
  "disk0 = empty_disk([''up''] \<mapsto> Dir)"

definition disk1 :: filesystem where
  "disk1 = disk0([''up'', ''a''] \<mapsto> Dir, [''up'', ''a'', ''m.stl''] \<mapsto> File ''solid a'')"

definition disk2 :: filesystem where
  "disk2 = disk1([''up'', ''b''] \<mapsto> Dir, [''up'', ''a'', ''n.stl''] \<mapsto> File ''solid b'')"

definition disk4 :: filesystem where
  "disk4 = (\<lambda>r. if prefix [''up'', ''a''] r then None else disk2 r)"

definition session_a :: session where
  "session_a =
     \<lparr>filename = ''m.stl'', session_file_path = ''up/a/m.stl'',
      file_size = length ''solid a'', upload_time = 0, last_accessed = 0,
      session_dir = ''up/a''\<rparr>"

definition session_b :: session where
  "session_b =
     \<lparr>filename = ''../a/n.stl'', session_file_path = ''up/b/../a/n.stl'',
      file_size = length ''solid b'', upload_time = 1, last_accessed = 1,
      session_dir = ''up/b''\<rparr>"

text \<open>The store after deleting \<open>a\<close> without materialising \<open>b\<close> first.\<close>

definition store5 :: session_manager where
  "store5 = snd (delete_session ''a'' store2)"


section \<open>Verification\<close>


subsection \<open>loops as sums\<close>

lemma foldl_add_sum_list:
  fixes a :: real
  shows "foldl (\<lambda>acc t. acc + f t) a ts = a + sum_list (map f ts)"
  by (induction ts arbitrary: a) simp_all

lemma total_area_sum: "total_area ts = sum_list (map calculate_triangle_area ts)"
  by (simp add: total_area_def foldl_add_sum_list)

lemma signed_volume_sum: "signed_volume ts = sum_list (map signed_tetra ts)"
  by (simp add: signed_volume_def foldl_add_sum_list)

lemma signed_tetra_scale:
  "signed_tetra (map_triangle (\<lambda>v. vmul v (a, b, c)) t) = a * b * c * signed_tetra t"
proof -
  obtain v0 v1 v2 where t: "t = (v0, v1, v2)" by (cases t)
  obtain x0 y0 z0 where v0: "v0 = (x0, y0, z0)" by (cases v0)
  obtain x1 y1 z1 where v1: "v1 = (x1, y1, z1)" by (cases v1)
  obtain x2 y2 z2 where v2: "v2 = (x2, y2, z2)" by (cases v2)
  show ?thesis
    by (simp add: t v0 v1 v2 algebra_simps)
qed


lemma signed_volume_scale:
  "signed_volume (map (map_triangle (\<lambda>v. vmul v (a, b, c))) ts) = a * b * c * signed_volume ts"
  by (induction ts)
     (simp_all add: signed_volume_sum signed_tetra_scale algebra_simps)

lemma linalg_norm_scale: "linalg_norm (vmul v (k, k, k)) = \<bar>k\<bar> * linalg_norm v"
proof -
  obtain x y z where v: "v = (x, y, z)" by (cases v)
  have "(x * k) * (x * k) + (y * k) * (y * k) + (z * k) * (z * k) = k\<^sup>2 * (x * x + y * y + z * z)"
    by (simp add: power2_eq_square algebra_simps)
  then show ?thesis
    by (simp add: v real_sqrt_mult)
qed

lemma triangle_area_scale:
  "calculate_triangle_area (map_triangle (\<lambda>v. vmul v (s, s, s)) t) = s\<^sup>2 * calculate_triangle_area t"
proof -
  obtain v0 v1 v2 where t: "t = (v0, v1, v2)" by (cases t)
  obtain x0 y0 z0 where v0: "v0 = (x0, y0, z0)" by (cases v0)
  obtain x1 y1 z1 where v1: "v1 = (x1, y1, z1)" by (cases v1)
  obtain x2 y2 z2 where v2: "v2 = (x2, y2, z2)" by (cases v2)
  have c: "cross (vsub (vmul v1 (s, s, s)) (vmul v0 (s, s, s))) (vsub (vmul v2 (s, s, s)) (vmul v0 (s, s, s)))
        = vmul (cross (vsub v1 v0) (vsub v2 v0)) (s\<^sup>2, s\<^sup>2, s\<^sup>2)"
    by (simp add: v0 v1 v2 power2_eq_square algebra_simps)
  show ?thesis
    by (simp add: t c linalg_norm_scale)
qed

lemma total_area_scale:
  "total_area (map (map_triangle (\<lambda>v. vmul v (s, s, s))) ts) = s\<^sup>2 * total_area ts"
  by (induction ts)
     (simp_all add: total_area_sum triangle_area_scale algebra_simps)



subsection \<open>Property reads\<close>

lemma ensure_mesh_loaded_Some: "mesh st = Some ts \<Longrightarrow> ensure_mesh_loaded st = Inr ts"
  by (simp add: ensure_mesh_loaded_def)

lemma calculate_volume_result:
  assumes "mesh st = Some ts"
  shows "calculate_volume st =
           (case cached_volume st of
              Some v \<Rightarrow> Inr (v, st)
            | None \<Rightarrow> Inr (\<bar>signed_volume ts\<bar>, st\<lparr>cached_volume := Some \<bar>signed_volume ts\<bar>\<rparr>))"
  using assms by (simp add: calculate_volume_def ensure_mesh_loaded_Some Let_def split: option.splits)

lemma calculate_surface_area_result:
  assumes "mesh st = Some ts"
  shows "calculate_surface_area st =
           (case cached_surface_area st of
              Some a \<Rightarrow> Inr (a, st)
            | None \<Rightarrow> Inr (total_area ts, st\<lparr>cached_surface_area := Some (total_area ts)\<rparr>))"
  using assms by (simp add: calculate_surface_area_def ensure_mesh_loaded_Some Let_def split: option.splits)

lemma calculate_volume_again:
  "calculate_volume st = Inr (v, st1) \<Longrightarrow> calculate_volume st1 = Inr (v, st1)"
  by (auto simp: calculate_volume_def ensure_mesh_loaded_def Let_def
      split: option.splits sum.splits)

lemma calculate_surface_area_again:
  "calculate_surface_area st = Inr (a, st1) \<Longrightarrow> calculate_surface_area st1 = Inr (a, st1)"
  by (auto simp: calculate_surface_area_def ensure_mesh_loaded_def Let_def
      split: option.splits sum.splits)

lemma calculate_volume_consistent:
  assumes "mesh st = Some ts" "cache_consistent st"
  shows "\<exists>st1. calculate_volume st = Inr (\<bar>signed_volume ts\<bar>, st1) \<and> mesh st1 = Some ts \<and>
           cache_consistent st1 \<and> cached_surface_area st1 = cached_surface_area st \<and>
           cached_bounds st1 = cached_bounds st \<and>
           cached_volume st1 = Some \<bar>signed_volume ts\<bar>"
  using assms
  by (cases "cached_volume st") (auto simp: calculate_volume_result cache_consistent_def)

lemma calculate_surface_area_consistent:
  assumes "mesh st = Some ts" "cache_consistent st"
  shows "\<exists>st1. calculate_surface_area st = Inr (total_area ts, st1) \<and> mesh st1 = Some ts \<and>
           cache_consistent st1 \<and> cached_volume st1 = cached_volume st \<and>
           cached_bounds st1 = cached_bounds st \<and>
           cached_surface_area st1 = Some (total_area ts)"
  using assms
  by (cases "cached_surface_area st") (auto simp: calculate_surface_area_result cache_consistent_def)

lemma get_bounding_box_consistent:
  assumes "mesh st = Some ts" "cache_consistent st" "ts \<noteq> []"
  shows "\<exists>b st1. get_bounding_box st = Inr (b, st1) \<and> compute_bounds (all_vertices ts) = Inr b \<and>
           mesh st1 = Some ts \<and> cache_consistent st1"
proof -
  from assms(3) obtain v0 v1 v2 ts' where ts: "ts = (v0, v1, v2) # ts'"
    by (cases ts) auto
  then obtain b where b: "compute_bounds (all_vertices ts) = Inr b"
    by (simp add: compute_bounds_def all_vertices_def)
  show ?thesis
  proof (cases "cached_bounds st")
    case None
    with assms b show ?thesis
      by (auto simp: get_bounding_box_def ensure_mesh_loaded_Some cache_consistent_def)
  next
    case (Some b')
    with assms b show ?thesis
      by (auto simp: get_bounding_box_def ensure_mesh_loaded_Some cache_consistent_def)
  qed
qed

lemma cache_consistent_loaded: "cache_consistent (loaded p ts)"
  by (simp add: cache_consistent_def loaded_def clear_cache_def init_stl_tools_def)

lemma mesh_loaded: "mesh (loaded p ts) = Some ts"
  by (simp add: loaded_def clear_cache_def init_stl_tools_def)

lemma cache_consistent_clear: "cache_consistent (clear_cache st)"
  by (simp add: cache_consistent_def clear_cache_def split: option.splits)

subsection \<open>Scaling\<close>

lemma scale_mesh_Scalar:
  assumes "mesh st = Some ts"
  shows "scale_mesh (Scalar s) st =
           Inr (True, clear_cache (st\<lparr>mesh := Some (scale_vectors (s, s, s) ts)\<rparr>))"
  using assms by (simp add: scale_mesh_def scale_mesh_try_def ensure_mesh_loaded_Some)

lemma scale_mesh_Factors3:
  assumes "mesh st = Some ts"
  shows "scale_mesh (Factors [a, b, c]) st =
           Inr (True, clear_cache (st\<lparr>mesh := Some (scale_vectors (a, b, c) ts)\<rparr>))"
  using assms by (simp add: scale_mesh_def scale_mesh_try_def ensure_mesh_loaded_Some)

lemma mesh_clear_cache: "mesh (clear_cache st) = mesh st"
  by (simp add: clear_cache_def)


subsection \<open>Single-precision storage\<close>

lemma pow2_powr: "pow2 e = 2 powr (of_int e)"
proof (cases "0 \<le> e")
  case True
  then have "2 powr (of_int e) = (2 :: real) powr (real (nat e))"
    by simp
  also have "\<dots> = 2 ^ nat e"
    by (simp add: powr_realpow)
  finally show ?thesis
    using True by (simp add: pow2_def)
next
  case False
  then have "(2 :: real) powr (of_int e) = 2 powr (- real (nat (- e)))"
    by simp
  also have "\<dots> = 1 / 2 ^ nat (- e)"
    by (simp add: powr_minus powr_realpow divide_inverse)
  finally show ?thesis
    using False by (simp add: pow2_def)
qed

lemma pow2_pos: "0 < pow2 e"
  by (simp add: pow2_def)

lemma floor_log2:
  assumes "pow2 e \<le> \<bar>x\<bar>" and "\<bar>x\<bar> < pow2 (e + 1)"
  shows "\<lfloor>log 2 \<bar>x\<bar>\<rfloor> = e"
proof -
  have pos: "0 < \<bar>x\<bar>"
    using assms(1) pow2_pos [of e] by linarith
  have "of_int e \<le> log 2 \<bar>x\<bar>"
    using assms(1) pos by (simp add: le_log_iff pow2_powr)
  moreover have "log 2 \<bar>x\<bar> < of_int e + 1"
    using assms(2) pos by (simp add: log_less_iff pow2_powr)
  ultimately show ?thesis
    by (simp add: floor_unique)
qed

lemma float32_0: "float32 0 = 0"
  by (simp add: float32_def)

lemma float32_1: "float32 1 = 1"
  by (simp add: float32_def float32_exponent_def pow2_def round_half_even_def)

lemma float32_2: "float32 2 = 2"
  by (simp add: float32_def float32_exponent_def pow2_def round_half_even_def)

lemma float32_10: "float32 10 = 10"
proof -
  have "\<lfloor>log 2 \<bar>10 :: real\<bar>\<rfloor> = 3"
    by (rule floor_log2) (simp_all add: pow2_def)
  then show ?thesis
    by (simp add: float32_def float32_exponent_def pow2_def round_half_even_def)
qed


text \<open>A factor closer to 1 than half a unit in the last place stores the old value.\<close>

lemma float32_near_one: "float32 (1 + 1 / 2 ^ 30) = 1"
proof -
  have "\<lfloor>log 2 \<bar>1 + 1 / 2 ^ 30 :: real\<bar>\<rfloor> = 0"
    by (rule floor_log2) (simp_all add: pow2_def)
  then show ?thesis
    by (simp add: float32_def float32_exponent_def pow2_def round_half_even_def)
qed


subsection \<open>Coordinates of a mesh\<close>

lemma mesh_coords_Cons:
  "mesh_coords (((x0, y0, z0), (x1, y1, z1), (x2, y2, z2)) # ts) =
     [x0, y0, z0, x1, y1, z1, x2, y2, z2] @ mesh_coords ts"
  by (simp add: mesh_coords_def all_vertices_def)

lemma mesh_coords_Nil: "mesh_coords [] = []"
  by (simp add: mesh_coords_def all_vertices_def)

text \<open>
  When every product is a number that a 32-bit float holds, the store changes nothing:
  the stored vertices are the exact products.
\<close>

lemma scale_vectors_exact:
  assumes "\<forall>c \<in> set (mesh_coords ts). float32 (c * s) = c * s"
  shows "scale_vectors (s, s, s) ts = map (map_triangle (\<lambda>v. vmul v (s, s, s))) ts"
  using assms
proof (induction ts)
  case Nil
  show ?case by (simp add: scale_vectors_def)
next
  case (Cons t ts)
  obtain x0 y0 z0 x1 y1 z1 x2 y2 z2 where
    t: "t = ((x0, y0, z0), (x1, y1, z1), (x2, y2, z2))"
    by (metis prod_cases3)
  from Cons.prems have rest: "\<forall>c \<in> set (mesh_coords ts). float32 (c * s) = c * s"
    by (simp add: t mesh_coords_Cons)
  from Cons.prems have head:
    "float32 (x0 * s) = x0 * s" "float32 (y0 * s) = y0 * s" "float32 (z0 * s) = z0 * s"
    "float32 (x1 * s) = x1 * s" "float32 (y1 * s) = y1 * s" "float32 (z1 * s) = z1 * s"
    "float32 (x2 * s) = x2 * s" "float32 (y2 * s) = y2 * s" "float32 (z2 * s) = z2 * s"
    by (simp_all add: t mesh_coords_Cons)
  from Cons.IH [OF rest] have "scale_vectors (s, s, s) ts =
      map (map_triangle (\<lambda>v. vmul v (s, s, s))) ts" .
  then show ?case
    by (simp add: scale_vectors_def t head)
qed


lemma scale_vectors_length: "length (scale_vectors k ts) = length ts"
  by (simp add: scale_vectors_def)

text \<open>When every product is stored as the old coordinate, the mesh does not change.\<close>

lemma scale_vectors_fixed:
  assumes "\<forall>c \<in> set (mesh_coords ts). float32 (c * s) = c"
  shows "scale_vectors (s, s, s) ts = ts"
  using assms
proof (induction ts)
  case Nil
  show ?case by (simp add: scale_vectors_def)
next
  case (Cons t ts)
  obtain x0 y0 z0 x1 y1 z1 x2 y2 z2 where
    t: "t = ((x0, y0, z0), (x1, y1, z1), (x2, y2, z2))"
    by (metis prod_cases3)
  from Cons.prems have rest: "\<forall>c \<in> set (mesh_coords ts). float32 (c * s) = c"
    by (simp add: t mesh_coords_Cons)
  from Cons.prems have head:
    "float32 (x0 * s) = x0" "float32 (y0 * s) = y0" "float32 (z0 * s) = z0"
    "float32 (x1 * s) = x1" "float32 (y1 * s) = y1" "float32 (z1 * s) = z1"
    "float32 (x2 * s) = x2" "float32 (y2 * s) = y2" "float32 (z2 * s) = z2"
    by (simp_all add: t mesh_coords_Cons)
  from Cons.IH [OF rest] have "scale_vectors (s, s, s) ts = ts" .
  then show ?case
    by (simp add: scale_vectors_def t head)
qed


subsection \<open>The test cube\<close>

lemma create_test_cube_eval:
  "create_test_cube =
     [((0, 0, 0), (0, 1, 0), (1, 0, 0)), ((1, 0, 0), (0, 1, 0), (1, 1, 0)),
      ((0, 0, 0), (0, 0, 1), (0, 1, 1)), ((0, 0, 0), (0, 1, 1), (0, 1, 0)),
      ((1, 0, 0), (1, 1, 0), (1, 1, 1)), ((1, 0, 0), (1, 1, 1), (1, 0, 1)),
      ((1, 1, 0), (0, 1, 0), (0, 1, 1)), ((1, 1, 0), (0, 1, 1), (1, 1, 1)),
      ((0, 0, 0), (1, 0, 0), (1, 0, 1)), ((0, 0, 0), (1, 0, 1), (0, 0, 1)),
      ((0, 0, 1), (1, 0, 1), (1, 1, 1)), ((0, 0, 1), (1, 1, 1), (0, 1, 1))]"
  by (simp add: create_test_cube_def cube_faces_def cube_vertices_def)

lemma cube_total_area: "total_area create_test_cube = 6"
  by (simp add: create_test_cube_eval total_area_def)

lemma cube_signed_volume: "signed_volume create_test_cube = 1"
  by (simp add: create_test_cube_eval signed_volume_def)

lemma cube_mean: "np_mean_axis0 (all_vertices create_test_cube) = Some (1 / 2, 1 / 2, 1 / 2)"
  by (simp add: create_test_cube_eval all_vertices_def np_mean_axis0_def)

lemma cube_bounds:
  "compute_bounds (all_vertices create_test_cube) =
     Inr \<lparr>min_coords = (0, 0, 0), max_coords = (1, 1, 1), dimensions = (1, 1, 1)\<rparr>"
  by (simp add: create_test_cube_eval all_vertices_def compute_bounds_def)

lemma cube_length: "length create_test_cube = 12"
  by (simp add: create_test_cube_eval)

lemma distribution_of_Cons:
  "\<exists>d. distribution_of (x # xs) = Inr d"
  by (simp add: distribution_of_def)

lemma get_mesh_statistics_fields:
  assumes "ts \<noteq> []"
  shows "\<exists>stats st' b.
           get_mesh_statistics (loaded p ts) = Inr (stats, st') \<and>
           compute_bounds (all_vertices ts) = Inr b \<and>
           triangle_count stats = length ts \<and>
           vertex_count stats = 3 * triangle_count stats \<and>
           surface_area stats = total_area ts \<and>
           volume stats = \<bar>signed_volume ts\<bar> \<and>
           center_of_mass stats = map_option tolist (np_mean_axis0 (all_vertices ts)) \<and>
           bounding_box stats = b \<and>
           aspect_ratio stats = calculate_aspect_ratio (dimensions b)"
proof -
  from assms obtain v0 v1 v2 ts' where ts: "ts = (v0, v1, v2) # ts'"
    by (cases ts) auto
  obtain b where b: "compute_bounds (all_vertices ts) = Inr b"
    by (simp add: ts compute_bounds_def all_vertices_def)
  obtain da where da: "distribution_of (map calculate_triangle_area ts) = Inr da"
    unfolding ts using distribution_of_Cons by fastforce
  obtain de where de: "distribution_of (concat (map triangle_edges ts)) = Inr de"
    unfolding ts using distribution_of_Cons by fastforce
  show ?thesis
    by (simp add: get_mesh_statistics_def get_bounding_box_def get_center_of_mass_def
        calculate_surface_area_def calculate_volume_def b da de
        loaded_def clear_cache_def init_stl_tools_def ensure_mesh_loaded_def Let_def)
qed

text \<open>
  C1. On the unit cube of the test suite (12 triangles, side 1) \<^verbatim>\<open>get_mesh_statistics\<close>
  returns, and reports surface area 6, volume 1, centre of mass \<open>[0.5, 0.5, 0.5]\<close> and
  aspect ratio 1. In the exact arithmetic of the embedding the values are exact.
\<close>

theorem unit_cube_statistics:
  "\<exists>stats st'.
     get_mesh_statistics (loaded p create_test_cube) = Inr (stats, st') \<and>
     triangle_count stats = 12 \<and>
     surface_area stats = 6 \<and>
     volume stats = 1 \<and>
     center_of_mass stats = Some [1 / 2, 1 / 2, 1 / 2] \<and>
     aspect_ratio stats = Some 1"
proof -
  have ne: "create_test_cube \<noteq> []"
    by (simp add: create_test_cube_eval)
  from get_mesh_statistics_fields [OF ne, of p]
  obtain stats st' b where
    run: "get_mesh_statistics (loaded p create_test_cube) = Inr (stats, st')" and
    b: "compute_bounds (all_vertices create_test_cube) = Inr b" and
    n: "triangle_count stats = length create_test_cube" and
    a: "surface_area stats = total_area create_test_cube" and
    v: "volume stats = \<bar>signed_volume create_test_cube\<bar>" and
    c: "center_of_mass stats = map_option tolist (np_mean_axis0 (all_vertices create_test_cube))" and
    r: "aspect_ratio stats = calculate_aspect_ratio (dimensions b)"
    by blast
  from b have dims: "dimensions b = (1, 1, 1)"
    by (auto simp: cube_bounds)
  have "aspect_ratio stats = Some 1"
    by (simp add: r dims calculate_aspect_ratio_def)
  moreover have "center_of_mass stats = Some [1 / 2, 1 / 2, 1 / 2]"
    by (simp add: c cube_mean)
  moreover have "surface_area stats = 6" "volume stats = 1" "triangle_count stats = 12"
    by (simp_all add: a v n cube_total_area cube_signed_volume cube_length)
  ultimately show ?thesis
    using run by blast
qed


subsection \<open>Memoisation and invalidation\<close>

lemma clear_cache_fields:
  "cached_surface_area (clear_cache st) = None"
  "cached_volume (clear_cache st) = None"
  "cached_bounds (clear_cache st) = None"
  "cached_center_of_mass (clear_cache st) = None"
  by (simp_all add: clear_cache_def)

lemma calculate_volume_cleared:
  assumes "mesh st = Some ts"
  shows "calculate_volume (clear_cache st) =
           Inr (\<bar>signed_volume ts\<bar>, (clear_cache st)\<lparr>cached_volume := Some \<bar>signed_volume ts\<bar>\<rparr>)"
  using assms by (simp add: calculate_volume_result [of _ ts] mesh_clear_cache clear_cache_fields)

lemma calculate_surface_area_after_volume:
  assumes "mesh st = Some ts"
  shows "calculate_surface_area ((clear_cache st)\<lparr>cached_volume := x\<rparr>) =
           Inr (total_area ts,
                (clear_cache st)\<lparr>cached_volume := x, cached_surface_area := Some (total_area ts)\<rparr>)"
  using assms
  by (simp add: calculate_surface_area_result [of _ ts] mesh_clear_cache clear_cache_fields)



lemma calculate_volume_any:
  assumes "mesh st = Some ts"
  shows "\<exists>v st1. calculate_volume st = Inr (v, st1) \<and> mesh st1 = Some ts \<and>
           cached_volume st1 = Some v \<and> cached_surface_area st1 = cached_surface_area st"
  using assms
  by (cases "cached_volume st") (simp_all add: calculate_volume_result [OF assms])

lemma calculate_surface_area_any:
  assumes "mesh st = Some ts"
  shows "\<exists>a st1. calculate_surface_area st = Inr (a, st1) \<and> mesh st1 = Some ts \<and>
           cached_surface_area st1 = Some a \<and> cached_volume st1 = cached_volume st"
  using assms
  by (cases "cached_surface_area st") (simp_all add: calculate_surface_area_result [OF assms])

lemma reads_after_mutation:
  "\<exists>st4 st5.
     cached_surface_area (clear_cache (st\<lparr>mesh := Some ts'\<rparr>)) = None \<and>
     cached_volume (clear_cache (st\<lparr>mesh := Some ts'\<rparr>)) = None \<and>
     cached_bounds (clear_cache (st\<lparr>mesh := Some ts'\<rparr>)) = None \<and>
     cached_center_of_mass (clear_cache (st\<lparr>mesh := Some ts'\<rparr>)) = None \<and>
     mesh (clear_cache (st\<lparr>mesh := Some ts'\<rparr>)) = Some ts' \<and>
     calculate_volume (clear_cache (st\<lparr>mesh := Some ts'\<rparr>)) = Inr (\<bar>signed_volume ts'\<bar>, st4) \<and>
     calculate_surface_area st4 = Inr (total_area ts', st5)"
proof -
  have m: "mesh (st\<lparr>mesh := Some ts'\<rparr>) = Some ts'"
    by simp
  show ?thesis
    using calculate_volume_cleared [OF m] calculate_surface_area_after_volume [OF m]
    by (simp add: clear_cache_fields mesh_clear_cache)
qed

text \<open>
  C2, as amended. With no mutation in between, a second call of \<^verbatim>\<open>calculate_volume\<close>
  or \<^verbatim>\<open>calculate_surface_area\<close> returns the very value of the first and leaves the
  instance as it is. A \<^verbatim>\<open>scale_mesh\<close> call with a scalar or with three factors succeeds
  and empties all four cache fields, whatever they held; the volume and the area
  returned after it are computed anew from the vertices that the call has stored. They
  need not differ from the values returned before.
\<close>

theorem memoization_and_invalidation:
  assumes "mesh st = Some ts"
  shows "\<exists>v a st1 st2.
           calculate_volume st = Inr (v, st1) \<and>
           calculate_volume st1 = Inr (v, st1) \<and>
           calculate_surface_area st1 = Inr (a, st2) \<and>
           calculate_surface_area st2 = Inr (a, st2) \<and>
           calculate_volume st2 = Inr (v, st2) \<and>
           (\<exists>st3 ts' st4 st5.
              scale_mesh (Scalar s) st2 = Inr (True, st3) \<and>
              mesh st3 = Some ts' \<and> length ts' = length ts \<and>
              cached_surface_area st3 = None \<and> cached_volume st3 = None \<and>
              cached_bounds st3 = None \<and> cached_center_of_mass st3 = None \<and>
              calculate_volume st3 = Inr (\<bar>signed_volume ts'\<bar>, st4) \<and>
              calculate_surface_area st4 = Inr (total_area ts', st5)) \<and>
           (\<exists>st3 ts' st4 st5.
              scale_mesh (Factors [x, y, z]) st2 = Inr (True, st3) \<and>
              mesh st3 = Some ts' \<and> length ts' = length ts \<and>
              cached_surface_area st3 = None \<and> cached_volume st3 = None \<and>
              cached_bounds st3 = None \<and> cached_center_of_mass st3 = None \<and>
              calculate_volume st3 = Inr (\<bar>signed_volume ts'\<bar>, st4) \<and>
              calculate_surface_area st4 = Inr (total_area ts', st5))"
proof -
  from calculate_volume_any [OF assms]
  obtain v st1 where v1: "calculate_volume st = Inr (v, st1)"
    and m1: "mesh st1 = Some ts" and cv1: "cached_volume st1 = Some v"
    by blast
  from calculate_surface_area_any [OF m1]
  obtain a st2 where a2: "calculate_surface_area st1 = Inr (a, st2)"
    and m2: "mesh st2 = Some ts" and cv2: "cached_volume st2 = cached_volume st1"
    by blast
  have v1': "calculate_volume st1 = Inr (v, st1)"
    by (rule calculate_volume_again [OF v1])
  have a2': "calculate_surface_area st2 = Inr (a, st2)"
    by (rule calculate_surface_area_again [OF a2])
  have v2: "calculate_volume st2 = Inr (v, st2)"
    using cv1 cv2 by (simp add: calculate_volume_result [OF m2])
  have sc: "\<exists>st3 ts' st4 st5.
              scale_mesh (Scalar s) st2 = Inr (True, st3) \<and>
              mesh st3 = Some ts' \<and> length ts' = length ts \<and>
              cached_surface_area st3 = None \<and> cached_volume st3 = None \<and>
              cached_bounds st3 = None \<and> cached_center_of_mass st3 = None \<and>
              calculate_volume st3 = Inr (\<bar>signed_volume ts'\<bar>, st4) \<and>
              calculate_surface_area st4 = Inr (total_area ts', st5)"
    using reads_after_mutation [where st = st2 and ts' = "scale_vectors (s, s, s) ts"]
    by (auto simp: scale_mesh_Scalar [OF m2] scale_vectors_length)
  have fc: "\<exists>st3 ts' st4 st5.
              scale_mesh (Factors [x, y, z]) st2 = Inr (True, st3) \<and>
              mesh st3 = Some ts' \<and> length ts' = length ts \<and>
              cached_surface_area st3 = None \<and> cached_volume st3 = None \<and>
              cached_bounds st3 = None \<and> cached_center_of_mass st3 = None \<and>
              calculate_volume st3 = Inr (\<bar>signed_volume ts'\<bar>, st4) \<and>
              calculate_surface_area st4 = Inr (total_area ts', st5)"
    using reads_after_mutation [where st = st2 and ts' = "scale_vectors (x, y, z) ts"]
    by (auto simp: scale_mesh_Factors3 [OF m2] scale_vectors_length)
  from v1 v1' a2 a2' v2 sc fc show ?thesis
    by blast
qed

lemma cube_tools_mesh: "mesh cube_tools = Some create_test_cube"
  by (simp add: cube_tools_def mesh_loaded)

lemma cube_tools_consistent: "cache_consistent cube_tools"
  by (simp add: cube_tools_def cache_consistent_loaded)

lemma cube_tools_volume: "\<exists>st1. calculate_volume cube_tools = Inr (1, st1)"
  using calculate_volume_consistent [OF cube_tools_mesh cube_tools_consistent]
  by (auto simp: cube_signed_volume)

lemma cube_tools_area: "\<exists>st1. calculate_surface_area cube_tools = Inr (6, st1)"
  using calculate_surface_area_consistent [OF cube_tools_mesh cube_tools_consistent]
  by (auto simp: cube_total_area)

lemma cube_coords: "set (mesh_coords create_test_cube) = {0, 1}"
  by (auto simp: create_test_cube_eval mesh_coords_Cons mesh_coords_Nil)

lemma cube_scaled_by_2:
  "scale_vectors (2, 2, 2) create_test_cube =
     map (map_triangle (\<lambda>v. vmul v (2, 2, 2))) create_test_cube"
  by (rule scale_vectors_exact) (simp add: cube_coords float32_0 float32_2)

lemma cube_scaled_by_2_volume: "\<bar>signed_volume (scale_vectors (2, 2, 2) create_test_cube)\<bar> = 8"
  by (simp add: cube_scaled_by_2 signed_volume_scale cube_signed_volume)

lemma cube_scaled_by_2_area: "total_area (scale_vectors (2, 2, 2) create_test_cube) = 24"
  by (simp add: cube_scaled_by_2 total_area_scale cube_total_area)

lemma map_triangle_one: "map_triangle (\<lambda>v. vmul v (1, 1, 1)) = id"
proof
  fix t :: triangle
  have "vmul v (1, 1, 1) = v" for v
    by (cases v) simp
  then show "map_triangle (\<lambda>v. vmul v (1, 1, 1)) t = id t"
    by (cases t) simp
qed

lemma cube_scaled_by_1: "scale_vectors (1, 1, 1) create_test_cube = create_test_cube"
proof -
  have "scale_vectors (1, 1, 1) create_test_cube =
          map (map_triangle (\<lambda>v. vmul v (1, 1, 1))) create_test_cube"
    by (rule scale_vectors_exact) (simp add: cube_coords float32_0 float32_1)
  then show ?thesis
    by (simp add: map_triangle_one)
qed

theorem memoization_and_invalidation_witness:
  "mesh cube_tools = Some create_test_cube \<and>
   (\<exists>st1 st2 st3 st4 st5.
      calculate_volume cube_tools = Inr (1, st1) \<and>
      calculate_volume st1 = Inr (1, st1) \<and>
      calculate_surface_area st1 = Inr (6, st2) \<and>
      calculate_surface_area st2 = Inr (6, st2) \<and>
      scale_mesh (Scalar 2) st2 = Inr (True, st3) \<and>
      cached_volume st3 = None \<and> cached_surface_area st3 = None \<and>
      calculate_volume st3 = Inr (8, st4) \<and>
      calculate_surface_area st4 = Inr (24, st5))"
proof -
  from memoization_and_invalidation [OF cube_tools_mesh, of 2 2 2 2]
  obtain v a st1 st2 st3 ts' st4 st5 where
    h: "calculate_volume cube_tools = Inr (v, st1)"
       "calculate_volume st1 = Inr (v, st1)"
       "calculate_surface_area st1 = Inr (a, st2)"
       "calculate_surface_area st2 = Inr (a, st2)"
       "scale_mesh (Scalar 2) st2 = Inr (True, st3)"
       "mesh st3 = Some ts'"
       "cached_surface_area st3 = None" "cached_volume st3 = None"
       "calculate_volume st3 = Inr (\<bar>signed_volume ts'\<bar>, st4)"
       "calculate_surface_area st4 = Inr (total_area ts', st5)"
    by blast
  from h(1) cube_tools_volume have v: "v = 1" by auto
  have m1: "mesh st1 = Some create_test_cube" and c1: "cache_consistent st1"
    using calculate_volume_consistent [OF cube_tools_mesh cube_tools_consistent] h(1) by auto
  from calculate_surface_area_consistent [OF m1 c1] h(3)
  have a: "a = 6" and m2: "mesh st2 = Some create_test_cube"
    by (auto simp: cube_total_area)
  from h(5,6) have ts': "ts' = scale_vectors (2, 2, 2) create_test_cube"
    by (auto simp: scale_mesh_Scalar [OF m2] mesh_clear_cache)
  from h show ?thesis
    unfolding v a ts' cube_scaled_by_2_volume cube_scaled_by_2_area
    using cube_tools_mesh by blast
qed

lemma read_scale_read_Scalar:
  assumes "mesh st = Some ts" and "cache_consistent st"
  shows "read_scale_read (Scalar s) st =
           Inr ((\<bar>signed_volume ts\<bar>, total_area ts),
                (\<bar>signed_volume (scale_vectors (s, s, s) ts)\<bar>,
                 total_area (scale_vectors (s, s, s) ts)))"
proof -
  from calculate_volume_consistent [OF assms]
  obtain st1 where v1: "calculate_volume st = Inr (\<bar>signed_volume ts\<bar>, st1)"
    and m1: "mesh st1 = Some ts" and c1: "cache_consistent st1"
    by blast
  from calculate_surface_area_consistent [OF m1 c1]
  obtain st2 where a2: "calculate_surface_area st1 = Inr (total_area ts, st2)"
    and m2: "mesh st2 = Some ts"
    by blast
  from reads_after_mutation [where st = st2 and ts' = "scale_vectors (s, s, s) ts"]
  obtain st4 st5 where
    v3: "calculate_volume (clear_cache (st2\<lparr>mesh := Some (scale_vectors (s, s, s) ts)\<rparr>)) =
           Inr (\<bar>signed_volume (scale_vectors (s, s, s) ts)\<bar>, st4)"
    and a3: "calculate_surface_area st4 = Inr (total_area (scale_vectors (s, s, s) ts), st5)"
    by blast
  show ?thesis
    by (simp add: read_scale_read_def v1 a2 scale_mesh_Scalar [OF m2] v3 a3)
qed

text \<open>
  C2, the claim as stated fails: scaling the unit cube by the factor 1 between the two
  readings changes neither the volume (1) nor the surface area (6).
\<close>

theorem scale_by_one_counterexample:
  "read_scale_read (Scalar 1) cube_tools = Inr ((1, 6), (1, 6))"
  by (simp add: read_scale_read_Scalar [OF cube_tools_mesh cube_tools_consistent]
      cube_scaled_by_1 cube_signed_volume cube_total_area)

text \<open>
  The same happens with a factor that differs from 1 by less than half a unit in the
  last place of a 32-bit float: the products are stored as the old coordinates.
\<close>

lemma scale_near_one_changes_nothing:
  "read_scale_read (Scalar (1 + 1 / 2 ^ 30)) cube_tools = Inr ((1, 6), (1, 6))"
proof -
  have "float32 (c * (1 + 1 / 2 ^ 30)) = c" if "c \<in> set (mesh_coords create_test_cube)" for c
  proof -
    from that have "c = 0 \<or> c = 1"
      by (simp add: cube_coords)
    then show ?thesis
    proof
      assume "c = 0"
      then show ?thesis by (simp add: float32_0)
    next
      assume "c = 1"
      then show ?thesis by (simp only: mult_1 float32_near_one)
    qed
  qed
  then have "\<forall>c \<in> set (mesh_coords create_test_cube). float32 (c * (1 + 1 / 2 ^ 30)) = c"
    by blast
  then have "scale_vectors (1 + 1 / 2 ^ 30, 1 + 1 / 2 ^ 30, 1 + 1 / 2 ^ 30) create_test_cube =
      create_test_cube"
    by (rule scale_vectors_fixed)
  then show ?thesis
    by (simp only: read_scale_read_Scalar [OF cube_tools_mesh cube_tools_consistent]
        cube_signed_volume cube_total_area abs_one)
qed



subsection \<open>Scaling there and back\<close>








subsection \<open>Arity of the mutation arguments\<close>

text \<open>
  C5, as amended. \<^verbatim>\<open>scale_mesh\<close> accepts a scalar, applied to all three axes, or a list of
  exactly three factors, applied per axis. For a list of any other length the body
  raises \<^verbatim>\<open>ValueError\<close> (the specification's \<^verbatim>\<open>InvalidArgument\<close>), but the method catches
  it: no error reaches the caller, the call returns \<^verbatim>\<open>False\<close>. \<^verbatim>\<open>translate_mesh\<close> does the
  same for a vector whose length is not three. After such a call the instance, vertices
  and caches, is what it was.
\<close>

theorem mutation_arity:
  assumes "mesh st = Some ts"
  shows "scale_mesh (Scalar s) st =
           Inr (True, clear_cache (st\<lparr>mesh := Some (scale_vectors (s, s, s) ts)\<rparr>)) \<and>
         scale_mesh (Factors [a, b, c]) st =
           Inr (True, clear_cache (st\<lparr>mesh := Some (scale_vectors (a, b, c) ts)\<rparr>)) \<and>
         (length fs \<noteq> 3 \<longrightarrow>
            scale_mesh_try (Factors fs) ts st =
              Inl (ValueError ''Scale factor must be a single number or list of 3 numbers'') \<and>
            scale_mesh (Factors fs) st = Inr (False, st)) \<and>
         translate_mesh [a, b, c] st =
           Inr (True, clear_cache (st\<lparr>mesh := Some (translate_vectors (a, b, c) ts)\<rparr>)) \<and>
         (length tr \<noteq> 3 \<longrightarrow>
            translate_mesh_try tr ts st =
              Inl (ValueError ''Translation must be a list of 3 numbers'') \<and>
            translate_mesh tr st = Inr (False, st))"
  using assms
  by (simp add: scale_mesh_def scale_mesh_try_def translate_mesh_def
      translate_mesh_try_def ensure_mesh_loaded_Some)

theorem mutation_arity_witness:
  "mesh cube_tools = Some create_test_cube \<and>
   length [2, 2 :: real] \<noteq> 3 \<and>
   scale_mesh (Factors [2, 2]) cube_tools = Inr (False, cube_tools) \<and>
   length [1 :: real] \<noteq> 3 \<and>
   translate_mesh [1] cube_tools = Inr (False, cube_tools) \<and>
   scale_mesh (Scalar 2) cube_tools =
     Inr (True, clear_cache
       (cube_tools\<lparr>mesh := Some (scale_vectors (2, 2, 2) create_test_cube)\<rparr>))"
  using mutation_arity [OF cube_tools_mesh, of 2 0 0 0 "[2, 2]" "[1]"] cube_tools_mesh
  by simp



text \<open>
  C5, the claim as stated fails: with two factors \<^verbatim>\<open>scale_mesh\<close> does not fail with an
  error, it returns \<^verbatim>\<open>False\<close>; so does \<^verbatim>\<open>translate_mesh\<close> with one component.
\<close>

theorem wrong_arity_returns_False_counterexample:
  "scale_mesh (Factors [2, 2]) cube_tools = Inr (False, cube_tools) \<and>
   \<not> isl (scale_mesh (Factors [2, 2]) cube_tools) \<and>
   translate_mesh [1] cube_tools = Inr (False, cube_tools) \<and>
   \<not> isl (translate_mesh [1] cube_tools)"
  by (simp add: scale_mesh_def scale_mesh_try_def translate_mesh_def translate_mesh_try_def
      ensure_mesh_loaded_Some [OF cube_tools_mesh])

subsection \<open>Validation\<close>













lemma flat_tools_mesh: "mesh flat_tools = Some flat_triangle"
  by (simp add: flat_tools_def mesh_loaded)




lemma flat_area: "total_area flat_triangle = 1 / 2"
  by (simp add: flat_triangle_def total_area_def)

lemma flat_volume: "signed_volume flat_triangle = 0"
  by (simp add: flat_triangle_def signed_volume_def)

lemma flat_bounds:
  "compute_bounds (all_vertices flat_triangle) =
     Inr \<lparr>min_coords = (0, 0, 0), max_coords = (1, 1, 0), dimensions = (1, 1, 0)\<rparr>"
  by (simp add: flat_triangle_def all_vertices_def compute_bounds_def)

lemma flat_find_degenerate: "find_degenerate flat_triangle = []"
  by (simp add: find_degenerate_def flat_triangle_def)

text \<open>
  A flat, non-degenerate triangle: both warnings are raised and the mesh is valid.
\<close>

lemma validate_flat:
  "\<exists>st'. validate_mesh flat_tools =
     Inr (\<lparr>is_valid = True, issues = [],
           warnings = [''Mesh has very small dimensions in one or more axes'',
                       ''Mesh has very small or zero volume''],
           degenerate_triangles = []\<rparr>, st')"
  by (simp add: validate_mesh_def flat_tools_def loaded_def clear_cache_def init_stl_tools_def
      ensure_mesh_loaded_def get_bounding_box_def flat_bounds calculate_volume_def flat_volume
      flat_find_degenerate Let_def)

subsection \<open>Aspect ratio\<close>

lemma sort3_first: "sort [d1, d2, d3 :: real] ! 0 = min d1 (min d2 d3)"
  by (auto simp: min_def)

lemma sort3_last: "sort [d1, d2, d3 :: real] ! 2 = max d1 (max d2 d3)"
  by (auto simp: max_def)

lemma get_mesh_statistics_aspect:
  assumes "get_mesh_statistics st = Inr (stats, st')"
  shows "aspect_ratio stats = calculate_aspect_ratio (dimensions (bounding_box stats))"
  using assms
  by (auto simp: get_mesh_statistics_def split: sum.splits prod.splits)



text \<open>
  C7. \<^verbatim>\<open>_calculate_aspect_ratio\<close> never raises. It sorts the three dimensions, whose
  first entry is the smallest and whose third is the largest, and returns the sentinel
  \<^verbatim>\<open>None\<close> exactly when the smallest dimension is at most 0 (the numeric epsilon of the
  code is 0), otherwise largest over smallest. The aspect ratio that
  \<^verbatim>\<open>get_mesh_statistics\<close> reports is this function of the bounding-box dimensions.
\<close>

theorem aspect_ratio_sentinel:
  "calculate_aspect_ratio (d1, d2, d3) =
     (if min d1 (min d2 d3) \<le> 0 then None
      else Some (max d1 (max d2 d3) / min d1 (min d2 d3))) \<and>
   sort (tolist (d1, d2, d3)) ! 0 = min d1 (min d2 d3) \<and>
   sort (tolist (d1, d2, d3)) ! 2 = max d1 (max d2 d3) \<and>
   (get_mesh_statistics st = Inr (stats, st') \<longrightarrow>
      aspect_ratio stats = calculate_aspect_ratio (dimensions (bounding_box stats)))"
proof -
  have "calculate_aspect_ratio (d1, d2, d3) =
     (if min d1 (min d2 d3) \<le> 0 then None
      else Some (max d1 (max d2 d3) / min d1 (min d2 d3)))"
    unfolding calculate_aspect_ratio_def tolist.simps Let_def sort3_first sort3_last
    by (simp add: not_le)
  then show ?thesis
    by (simp add: sort3_first sort3_last get_mesh_statistics_aspect)
qed

theorem aspect_ratio_sentinel_witness:
  "\<exists>stats st'.
     get_mesh_statistics cube_tools = Inr (stats, st') \<and>
     aspect_ratio stats = calculate_aspect_ratio (dimensions (bounding_box stats)) \<and>
     calculate_aspect_ratio (1, 1, 0) = None \<and>
     calculate_aspect_ratio (2, 1, 4) = Some 4 \<and>
     calculate_aspect_ratio (1 / 10 ^ 12, 1, 1) = Some (10 ^ 12)"
proof -
  have ne: "create_test_cube \<noteq> []"
    by (simp add: create_test_cube_eval)
  from get_mesh_statistics_fields [OF ne, of "''cube.stl''"]
  obtain stats st' where run: "get_mesh_statistics cube_tools = Inr (stats, st')"
    unfolding cube_tools_def by blast
  from aspect_ratio_sentinel [of 1 1 0 cube_tools stats st'] run
  have a: "aspect_ratio stats = calculate_aspect_ratio (dimensions (bounding_box stats))"
    and b: "calculate_aspect_ratio (1, 1, 0) = None"
    by simp_all
  from aspect_ratio_sentinel [of 2 1 4 cube_tools stats st']
  have c: "calculate_aspect_ratio (2, 1, 4) = Some 4"
    by simp
  from aspect_ratio_sentinel [of "1 / 10 ^ 12" 1 1 cube_tools stats st']
  have d: "calculate_aspect_ratio (1 / 10 ^ 12, 1, 1) = Some (10 ^ 12)"
    by simp
  from run a b c d show ?thesis
    by blast
qed



subsection \<open>Coverage efficiency\<close>

lemma calculate_coverage_efficiency_consistent:
  assumes "mesh st = Some ts" and "ts \<noteq> []" and "cache_consistent st"
  shows "\<exists>st' b.
           compute_bounds (all_vertices ts) = Inr b \<and>
           calculate_coverage_efficiency st =
             Inr (max (1 - min ((case calculate_aspect_ratio (dimensions b) of
                                    None \<Rightarrow> 1 | Some r \<Rightarrow> r) / 10) 1 * 0.15
                         - min ((if \<bar>signed_volume ts\<bar> > 0
                                 then total_area ts / \<bar>signed_volume ts\<bar> else 0) / 10) 1 * 0.15)
                      0.7, st')"
proof -
  from get_bounding_box_consistent [OF assms(1,3,2)]
  obtain b st1 where bb: "get_bounding_box st = Inr (b, st1)"
    and b: "compute_bounds (all_vertices ts) = Inr b"
    and m1: "mesh st1 = Some ts" and c1: "cache_consistent st1"
    by blast
  from calculate_volume_consistent [OF m1 c1]
  obtain st2 where v2: "calculate_volume st1 = Inr (\<bar>signed_volume ts\<bar>, st2)"
    and m2: "mesh st2 = Some ts" and c2: "cache_consistent st2"
    by blast
  from calculate_surface_area_consistent [OF m2 c2]
  obtain st3 where a3: "calculate_surface_area st2 = Inr (total_area ts, st3)"
    and m3: "mesh st3 = Some ts" and c3: "cache_consistent st3"
    by blast
  from calculate_volume_consistent [OF m3 c3]
  obtain st4 where v4: "calculate_volume st3 = Inr (\<bar>signed_volume ts\<bar>, st4)"
    by blast
  show ?thesis
  proof (cases "\<bar>signed_volume ts\<bar> > 0")
    case True
    have "calculate_coverage_efficiency st =
             Inr (max (1 - min ((case calculate_aspect_ratio (dimensions b) of
                                    None \<Rightarrow> 1 | Some r \<Rightarrow> r) / 10) 1 * 0.15
                         - min ((if \<bar>signed_volume ts\<bar> > 0
                                 then total_area ts / \<bar>signed_volume ts\<bar> else 0) / 10) 1 * 0.15)
                      0.7, st4)"
      unfolding calculate_coverage_efficiency_def
      by (simp only: ensure_mesh_loaded_Some [OF assms(1)] bb v2 a3 v4 True
          sum.case prod.case if_True Let_def)
    with b show ?thesis
      by blast
  next
    case False
    have "calculate_coverage_efficiency st =
             Inr (max (1 - min ((case calculate_aspect_ratio (dimensions b) of
                                    None \<Rightarrow> 1 | Some r \<Rightarrow> r) / 10) 1 * 0.15
                         - min ((if \<bar>signed_volume ts\<bar> > 0
                                 then total_area ts / \<bar>signed_volume ts\<bar> else 0) / 10) 1 * 0.15)
                      0.7, st2)"
      unfolding calculate_coverage_efficiency_def
      by (simp only: ensure_mesh_loaded_Some [OF assms(1)] bb v2 False
          sum.case prod.case if_False Let_def)
    with b show ?thesis
      by blast
  qed
qed

text \<open>
  C9, as amended. On a loaded mesh with at least one triangle the coverage efficiency is
  \<open>1 - 0.15 * min (aspect / 10) 1 - 0.15 * min (ratio / 10) 1\<close>, floored at 0.7, where
  \<open>aspect\<close> is the aspect ratio, replaced by 1 when it is undefined, and \<open>ratio\<close> is
  surface area over volume when the volume is positive and 0 otherwise. When the volume
  is not zero this is the value of the specification's formula.
\<close>

theorem coverage_efficiency_formula:
  assumes "mesh st = Some ts" and "ts \<noteq> []" and "cache_consistent st"
  shows "\<exists>e st' b.
           calculate_coverage_efficiency st = Inr (e, st') \<and>
           compute_bounds (all_vertices ts) = Inr b \<and>
           e = max (1 - 0.15 * min ((case calculate_aspect_ratio (dimensions b) of
                                       None \<Rightarrow> 1 | Some r \<Rightarrow> r) / 10) 1
                      - 0.15 * min ((if \<bar>signed_volume ts\<bar> > 0
                                     then total_area ts / \<bar>signed_volume ts\<bar> else 0) / 10) 1)
                   0.7 \<and>
           (signed_volume ts \<noteq> 0 \<longrightarrow>
              spec_coverage_efficiency (calculate_aspect_ratio (dimensions b))
                (total_area ts) \<bar>signed_volume ts\<bar> = Some e)"
proof -
  from calculate_coverage_efficiency_consistent [OF assms]
  obtain st' b where b: "compute_bounds (all_vertices ts) = Inr b"
    and run: "calculate_coverage_efficiency st =
             Inr (max (1 - min ((case calculate_aspect_ratio (dimensions b) of
                                    None \<Rightarrow> 1 | Some r \<Rightarrow> r) / 10) 1 * 0.15
                         - min ((if \<bar>signed_volume ts\<bar> > 0
                                 then total_area ts / \<bar>signed_volume ts\<bar> else 0) / 10) 1 * 0.15)
                      0.7, st')"
    by blast
  define af where "af = min ((case calculate_aspect_ratio (dimensions b) of
                                    None \<Rightarrow> 1 | Some r \<Rightarrow> r) / 10) 1"
  define sf where "sf = min ((if \<bar>signed_volume ts\<bar> > 0
                                 then total_area ts / \<bar>signed_volume ts\<bar> else 0) / 10) 1"
  define e where "e = max (1 - 0.15 * af - 0.15 * sf) 0.7"
  have "max (1 - af * 0.15 - sf * 0.15) 0.7 = e"
    by (simp add: e_def)
  with run have run': "calculate_coverage_efficiency st = Inr (e, st')"
    by (simp only: af_def sf_def)
  have sp: "spec_coverage_efficiency (calculate_aspect_ratio (dimensions b))
                (total_area ts) \<bar>signed_volume ts\<bar> = Some e"
    if nz: "signed_volume ts \<noteq> 0"
  proof -
    from nz have pos: "\<bar>signed_volume ts\<bar> > 0"
      by simp
    have q: "spec_quotient (total_area ts) \<bar>signed_volume ts\<bar> =
               Some (total_area ts / \<bar>signed_volume ts\<bar>)"
      using nz by (simp add: spec_quotient_def)
    have sf': "sf = min (total_area ts / \<bar>signed_volume ts\<bar> / 10) 1"
      unfolding sf_def by (simp only: pos if_True)
    show ?thesis
      unfolding spec_coverage_efficiency_def q option.case e_def af_def sf' ..
  qed
  from run' b sp show ?thesis
    unfolding e_def af_def sf_def by blast
qed

lemma flat_tools_consistent: "cache_consistent flat_tools"
  by (simp add: flat_tools_def cache_consistent_loaded)

lemma flat_coverage: "\<exists>st'. calculate_coverage_efficiency flat_tools = Inr (197 / 200, st')"
proof -
  have ne: "flat_triangle \<noteq> []"
    by (simp add: flat_triangle_def)
  from calculate_coverage_efficiency_consistent [OF flat_tools_mesh ne flat_tools_consistent]
  show ?thesis
    by (auto simp: flat_bounds flat_volume calculate_aspect_ratio_def)
qed

text \<open>
  C9, the claim as stated fails on a mesh of zero volume. For the flat triangle (area
  1/2, volume 0, aspect ratio undefined) the code returns 0.985, having taken the ratio
  as 0, while the quotient \<open>area / volume\<close> of the stated formula has no value.
\<close>

theorem coverage_zero_volume_counterexample:
  "map_sum id fst (calculate_coverage_efficiency flat_tools) = Inr (197 / 200) \<and>
   total_area flat_triangle = 1 / 2 \<and>
   \<bar>signed_volume flat_triangle\<bar> = 0 \<and>
   spec_coverage_efficiency None (total_area flat_triangle) \<bar>signed_volume flat_triangle\<bar> = None"
  using flat_coverage
  by (auto simp: flat_area flat_volume spec_coverage_efficiency_def spec_quotient_def)

theorem coverage_efficiency_formula_witness:
  "mesh cube_tools = Some create_test_cube \<and> create_test_cube \<noteq> [] \<and>
   cache_consistent cube_tools \<and> signed_volume create_test_cube \<noteq> 0 \<and>
   (\<exists>st'. calculate_coverage_efficiency cube_tools = Inr (179 / 200, st')) \<and>
   spec_coverage_efficiency (Some 1) 6 1 = Some (179 / 200)"
proof -
  have ne: "create_test_cube \<noteq> []"
    by (simp add: create_test_cube_eval)
  from coverage_efficiency_formula [OF cube_tools_mesh ne cube_tools_consistent]
  obtain e st' b where
    run: "calculate_coverage_efficiency cube_tools = Inr (e, st')" and
    b: "compute_bounds (all_vertices create_test_cube) = Inr b" and
    e: "e = max (1 - 0.15 * min ((case calculate_aspect_ratio (dimensions b) of
                                       None \<Rightarrow> 1 | Some r \<Rightarrow> r) / 10) 1
                      - 0.15 * min ((if \<bar>signed_volume create_test_cube\<bar> > 0
                                     then total_area create_test_cube / \<bar>signed_volume create_test_cube\<bar>
                                     else 0) / 10) 1)
                   0.7" and
    sp: "signed_volume create_test_cube \<noteq> 0 \<longrightarrow>
              spec_coverage_efficiency (calculate_aspect_ratio (dimensions b))
                (total_area create_test_cube) \<bar>signed_volume create_test_cube\<bar> = Some e"
    by blast
  from b have dims: "dimensions b = (1, 1, 1)"
    by (auto simp: cube_bounds)
  have ar: "calculate_aspect_ratio (1, 1, 1) = Some 1"
    by (simp add: calculate_aspect_ratio_def)
  from e have ev: "e = 179 / 200"
    by (simp add: dims ar cube_signed_volume cube_total_area)
  from sp have "spec_coverage_efficiency (Some 1) 6 1 = Some (179 / 200)"
    by (simp add: dims ar cube_signed_volume cube_total_area ev)
  with run ev ne cube_tools_mesh cube_tools_consistent show ?thesis
    by (auto simp: cube_signed_volume)
qed



subsection \<open>Resin cost\<close>

lemma estimate_resin_cost_result:
  assumes "mesh st = Some ts" and "calculate_volume st = Inr (v, st1)"
  shows "estimate_resin_cost d p u st =
           (if u = ''mm3''
            then Inr (\<lparr>volume_mm3 = v, volume_cm3 = v / 1000, mass_g = v / 1000 * d,
                       mass_kg = v / 1000 * d / 1000, cost = v / 1000 * d / 1000 * p\<rparr>, st1)
            else if u = ''cm3''
            then Inr (\<lparr>volume_mm3 = v, volume_cm3 = v, mass_g = v * d,
                       mass_kg = v * d / 1000, cost = v * d / 1000 * p\<rparr>, st1)
            else Inl (ValueError volume_unit_message))"
  unfolding estimate_resin_cost_def
  by (simp only: ensure_mesh_loaded_Some [OF assms(1)] assms(2) sum.case prod.case Let_def
      split: if_splits) simp

text \<open>
  C4, as amended. \<^verbatim>\<open>estimate_resin_cost\<close> never fails because of the density or the
  price: for every density and price, non-positive ones included, it returns the
  breakdown \<open>volume_cm3 = volume_mm3 / 1000\<close> (or the volume as it is for \<^verbatim>\<open>'cm3'\<close>),
  \<open>mass_g = volume_cm3 * density\<close>, \<open>cost = (mass_g / 1000) * price\<close>. It raises
  \<^verbatim>\<open>ValueError\<close> only for a unit other than \<^verbatim>\<open>'mm3'\<close> and \<^verbatim>\<open>'cm3'\<close>. Non-positive densities
  and prices are rejected by the request schema \<^verbatim>\<open>ResinCostRequest\<close> of the HTTP layer.
\<close>

theorem resin_cost_formula:
  assumes "mesh st = Some ts" and "cache_consistent st"
  shows "\<exists>st1.
           calculate_volume st = Inr (\<bar>signed_volume ts\<bar>, st1) \<and>
           estimate_resin_cost d p ''mm3'' st =
             Inr (\<lparr>volume_mm3 = \<bar>signed_volume ts\<bar>,
                   volume_cm3 = \<bar>signed_volume ts\<bar> / 1000,
                   mass_g = \<bar>signed_volume ts\<bar> / 1000 * d,
                   mass_kg = \<bar>signed_volume ts\<bar> / 1000 * d / 1000,
                   cost = \<bar>signed_volume ts\<bar> / 1000 * d / 1000 * p\<rparr>, st1) \<and>
           estimate_resin_cost d p ''cm3'' st =
             Inr (\<lparr>volume_mm3 = \<bar>signed_volume ts\<bar>,
                   volume_cm3 = \<bar>signed_volume ts\<bar>,
                   mass_g = \<bar>signed_volume ts\<bar> * d,
                   mass_kg = \<bar>signed_volume ts\<bar> * d / 1000,
                   cost = \<bar>signed_volume ts\<bar> * d / 1000 * p\<rparr>, st1) \<and>
           (u \<noteq> ''mm3'' \<and> u \<noteq> ''cm3'' \<longrightarrow>
              estimate_resin_cost d p u st = Inl (ValueError volume_unit_message)) \<and>
           (d \<le> 0 \<or> p \<le> 0 \<longrightarrow> \<not> ResinCostRequest_valid d p u)"
proof -
  from calculate_volume_consistent [OF assms]
  obtain st1 where v: "calculate_volume st = Inr (\<bar>signed_volume ts\<bar>, st1)"
    by blast
  have "\<not> ResinCostRequest_valid d p u" if "d \<le> 0 \<or> p \<le> 0"
    using that by (auto simp: ResinCostRequest_valid_def)
  with v show ?thesis
    by (auto simp: estimate_resin_cost_result [OF assms(1) v])
qed

lemma big_cube_mesh: "mesh big_cube_tools = Some (scale_vectors (10, 10, 10) create_test_cube)"
  by (simp add: big_cube_tools_def mesh_loaded)

lemma big_cube_consistent: "cache_consistent big_cube_tools"
  by (simp add: big_cube_tools_def cache_consistent_loaded)

lemma big_cube_volume: "\<bar>signed_volume (scale_vectors (10, 10, 10) create_test_cube)\<bar> = 1000"
proof -
  have "scale_vectors (10, 10, 10) create_test_cube =
          map (map_triangle (\<lambda>v. vmul v (10, 10, 10))) create_test_cube"
    by (rule scale_vectors_exact) (simp add: cube_coords float32_0 float32_10)
  then show ?thesis
    by (simp add: signed_volume_scale cube_signed_volume)
qed

lemma big_cube_calculate_volume:
  "calculate_volume big_cube_tools = Inr (1000, big_cube_tools\<lparr>cached_volume := Some 1000\<rparr>)"
proof -
  have "cached_volume big_cube_tools = None"
    by (simp add: big_cube_tools_def loaded_def clear_cache_def)
  then show ?thesis
    by (simp add: calculate_volume_result [OF big_cube_mesh] big_cube_volume)
qed

text \<open>
  C4, the claim as stated fails: with density \<open>-1\<close> the calculator does not fail; on the
  cube of volume 1000 it returns a negative mass and cost.
\<close>

theorem resin_cost_negative_density_counterexample:
  "estimate_resin_cost (- 1) 50 ''mm3'' big_cube_tools =
     Inr (\<lparr>volume_mm3 = 1000, volume_cm3 = 1, mass_g = - 1, mass_kg = - 1 / 1000,
           cost = - 1 / 20\<rparr>,
          big_cube_tools\<lparr>cached_volume := Some 1000\<rparr>)"
  by (simp add: estimate_resin_cost_result [OF big_cube_mesh big_cube_calculate_volume])

theorem resin_cost_formula_witness:
  "mesh big_cube_tools = Some (scale_vectors (10, 10, 10) create_test_cube) \<and>
   cache_consistent big_cube_tools \<and>
   (\<exists>st1. estimate_resin_cost 1.1 50 ''mm3'' big_cube_tools =
      Inr (\<lparr>volume_mm3 = 1000, volume_cm3 = 1, mass_g = 1.1, mass_kg = 1.1 / 1000,
            cost = 0.055\<rparr>, st1)) \<and>
   ''oz'' \<noteq> ''mm3'' \<and> ''oz'' \<noteq> ''cm3'' \<and>
   estimate_resin_cost 1.1 50 ''oz'' big_cube_tools = Inl (ValueError volume_unit_message) \<and>
   ((0 :: real) \<le> 0 \<or> (50 :: real) \<le> 0) \<and> \<not> ResinCostRequest_valid 0 50 ''mm3''"
proof -
  from resin_cost_formula [OF big_cube_mesh big_cube_consistent, of "11 / 10" 50 "''oz''"]
  have a: "\<exists>st1. estimate_resin_cost 1.1 50 ''mm3'' big_cube_tools =
      Inr (\<lparr>volume_mm3 = 1000, volume_cm3 = 1, mass_g = 1.1, mass_kg = 1.1 / 1000,
            cost = 0.055\<rparr>, st1)"
    and b: "estimate_resin_cost 1.1 50 ''oz'' big_cube_tools = Inl (ValueError volume_unit_message)"
    by (auto simp: big_cube_volume)
  from resin_cost_formula [OF big_cube_mesh big_cube_consistent, of 0 50 "''mm3''"]
  have c: "\<not> ResinCostRequest_valid 0 50 ''mm3''"
    by auto
  from a b c big_cube_mesh big_cube_consistent show ?thesis
    by simp
qed



section \<open>Session manager: verification\<close>

subsection \<open>The small store, step by step\<close>

lemma disk0_simps:
  "disk0 [] = Some Dir" "disk0 [''up''] = Some Dir"
  "disk0 [''up'', x] = None" "disk0 [''up'', x, y] = None"
  by (simp_all add: disk0_def empty_disk_def)

lemma new_session_manager_store0: "new_session_manager ''up'' 3600 2 empty_disk = Inr store0"
  by (simp add: new_session_manager_def makedirs_def empty_disk_def store0_def)

lemma makedirs_a: "makedirs disk0 ''up/a'' = Inr (disk0([''up'', ''a''] \<mapsto> Dir))"
  by (simp add: makedirs_def disk0_simps)

lemma write_a:
  "write_file (disk0([''up'', ''a''] \<mapsto> Dir)) ''up/a/m.stl'' ''solid a'' = Inr disk1"
  by (simp add: write_file_def resolve_def disk0_simps disk1_def)

lemma store1_eval:
  "create_session 0 0 ''a'' ''solid a'' ''m.stl'' store0 =
     (Inr (''a'', ''up/a/m.stl''), store0\<lparr>disk := disk1, sessions := [(''a'', session_a)]\<rparr>)"
  unfolding create_session_def
  by (simp add: store0_def disk0_def [symmetric] path_join_def makedirs_a write_a
      session_a_def Let_def)

lemma store1_eq: "store1 = store0\<lparr>disk := disk1, sessions := [(''a'', session_a)]\<rparr>"
  by (simp add: store1_def store1_eval)

lemma disk1_simps:
  "disk1 [] = Some Dir" "disk1 [''up''] = Some Dir" "disk1 [''up'', ''a''] = Some Dir"
  "disk1 [''up'', ''b''] = None" "disk1 [''up'', ''a'', ''n.stl''] = None"
  "disk1 [''up'', ''a'', ''m.stl''] = Some (File ''solid a'')"
  by (simp_all add: disk1_def disk0_simps)

lemma makedirs_b: "makedirs disk1 ''up/b'' = Inr (disk1([''up'', ''b''] \<mapsto> Dir))"
  by (simp add: makedirs_def disk1_simps)

lemma write_b:
  "write_file (disk1([''up'', ''b''] \<mapsto> Dir)) ''up/b/../a/n.stl'' ''solid b'' = Inr disk2"
  by (simp add: write_file_def resolve_def disk1_simps disk2_def)

lemma store2_eval:
  "create_session 1 1 ''b'' ''solid b'' ''../a/n.stl'' store1 =
     (Inr (''b'', ''up/b/../a/n.stl''),
      store0\<lparr>disk := disk2, sessions := [(''a'', session_a), (''b'', session_b)]\<rparr>)"
  unfolding create_session_def
  by (simp add: store1_eq store0_def path_join_def makedirs_b write_b
      session_b_def Let_def)

lemma store2_eq:
  "store2 = store0\<lparr>disk := disk2, sessions := [(''a'', session_a), (''b'', session_b)]\<rparr>"
  by (simp add: store2_def store2_eval)

lemma disk2_simps:
  "disk2 [] = Some Dir" "disk2 [''up''] = Some Dir" "disk2 [''up'', ''a''] = Some Dir"
  "disk2 [''up'', ''b''] = Some Dir"
  "disk2 [''up'', ''a'', ''n.stl''] = Some (File ''solid b'')"
  "disk2 [''up'', ''a'', ''m.stl''] = Some (File ''solid a'')"
  by (simp_all add: disk2_def disk1_simps)

lemma read_b_before: "read_file disk2 ''up/b/../a/n.stl'' = Inr ''solid b''"
  by (simp add: read_file_def resolve_def disk2_simps)

lemma exists_b: "path_exists disk2 ''up/b/../a/n.stl''"
  by (simp add: path_exists_def resolve_def disk2_simps)

lemma load_b:
  "load_file accepting_parser disk2 ''up/b/../a/n.stl'' init_stl_tools =
     Inr (True, loaded ''up/b/../a/n.stl'' flat_triangle)"
  by (simp add: load_file_def exists_b read_b_before accepting_parser_def loaded_def
      clear_cache_def init_stl_tools_def)


lemma session_fields:
  "session_file_path session_b = ''up/b/../a/n.stl''" "session_dir session_b = ''up/b''"
  "session_file_path session_a = ''up/a/m.stl''" "session_dir session_a = ''up/a''"
  "last_accessed session_a = 0" "last_accessed session_b = 1"
  by (simp_all add: session_a_def session_b_def)

lemma store3_eval:
  "get_stl_tools accepting_parser ''b'' store2 =
     (Some 0,
      store2\<lparr>objects := (\<lambda>r. None)(0 \<mapsto> loaded ''up/b/../a/n.stl'' flat_triangle),
             next_ref := 1, lru := [(''b'', Some 0)],
             stl_instances := [(''b'', 0)], cache_hits := 1\<rparr>)"
  unfolding get_stl_tools_def get_stl_tools_cached_def get_stl_tools_body_def
  by (simp add: store2_eq store0_def session_fields load_b)

lemma store3_eq:
  "store3 =
     store2\<lparr>objects := (\<lambda>r. None)(0 \<mapsto> loaded ''up/b/../a/n.stl'' flat_triangle),
            next_ref := 1, lru := [(''b'', Some 0)],
            stl_instances := [(''b'', 0)], cache_hits := 1\<rparr>"
  by (simp add: store3_def store3_eval)

lemma exists_dir_a: "path_exists disk2 ''up/a''"
  by (simp add: path_exists_def resolve_def disk2_simps)

lemma rmtree_a: "rmtree disk2 ''up/a'' = Inr disk4"
  by (simp add: rmtree_def resolve_def disk2_simps disk4_def)

lemma store4_eval:
  "delete_session ''a'' store3 =
     (True, store3\<lparr>lru := [], disk := disk4, sessions := [(''b'', session_b)]\<rparr>)"
  unfolding delete_session_def
  by (simp add: store3_eq store2_eq store0_def session_fields exists_dir_a rmtree_a)



subsection \<open>Capacity\<close>

lemma cleanup_none_expired:
  assumes "\<forall>p \<in> set (sessions m). \<not> expired t m (snd p)"
  shows "cleanup_expired_sessions t m = (0, m)"
proof -
  have "filter (\<lambda>(sid, s). expired t m s) (sessions m) = []"
    using assms by (auto simp: filter_empty_conv)
  then show ?thesis
    by (simp add: cleanup_expired_sessions_def)
qed

lemma delete_session_True:
  assumes "delete_session a m = (True, m1)"
  shows "map_of (sessions m) a \<noteq> None \<and> sessions m1 = AList.delete a (sessions m) \<and>
         max_sessions m1 = max_sessions m \<and> upload_dir m1 = upload_dir m"
  using assms unfolding delete_session_def
  by (auto simp: Let_def split: option.splits if_splits sum.splits)

lemma length_delete_less:
  assumes "map_of al k \<noteq> None"
  shows "length (AList.delete k al) < length al"
proof -
  from assms obtain v where "(k, v) \<in> set al"
    by (auto dest: map_of_SomeD)
  then show ?thesis
    unfolding AList.delete_eq by (auto intro: length_filter_less)
qed

lemma create_session_below_limit:
  assumes "int (length (sessions m)) < max_sessions m"
  shows "create_session t now new_id file_content fname m =
           (case makedirs (disk m) (path_join (upload_dir m) new_id) of
              Inl e \<Rightarrow> (Inl e, m)
            | Inr d1 \<Rightarrow>
                (case write_file d1 (path_join (path_join (upload_dir m) new_id) fname)
                        file_content of
                   Inl e \<Rightarrow> (Inl e, m\<lparr>disk := d1\<rparr>)
                 | Inr d2 \<Rightarrow>
                     (Inr (new_id, path_join (path_join (upload_dir m) new_id) fname),
                      m\<lparr>disk := d2,
                        sessions := AList.update new_id
                          \<lparr>filename = fname,
                           session_file_path = path_join (path_join (upload_dir m) new_id) fname,
                           file_size = length file_content, upload_time = now,
                           last_accessed = now,
                           session_dir = path_join (upload_dir m) new_id\<rparr>
                          (sessions m)\<rparr>)))"
  using assms unfolding create_session_def
  by (simp add: Let_def split: sum.splits)

lemma makedirs_walk_no_RuntimeError: "makedirs_walk d cur cs \<noteq> Inl (RuntimeError x)"
  by (induction cs arbitrary: d cur) (auto split: option.splits node.splits)

lemma makedirs_no_RuntimeError: "makedirs d p \<noteq> Inl (RuntimeError x)"
  by (simp add: makedirs_def makedirs_walk_no_RuntimeError)

lemma walk_no_RuntimeError: "walk d cur cs \<noteq> Inl (RuntimeError x)"
  by (induction cs arbitrary: cur) (auto split: option.splits node.splits)

lemma write_file_no_RuntimeError: "write_file d p content \<noteq> Inl (RuntimeError x)"
  using walk_no_RuntimeError [of d "[]" "split_slash p" x]
  by (auto simp: write_file_def resolve_def split: sum.splits)

text \<open>
  C3. A store that holds as many sessions as \<^verbatim>\<open>max_sessions\<close> allows, none of them past
  its TTL at the time of the sweep, rejects \<^verbatim>\<open>create_session\<close> with the \<^verbatim>\<open>RuntimeError\<close>
  "Maximum number of sessions reached" (the specification's \<^verbatim>\<open>CapacityExceeded\<close>) and is
  left exactly as it was: the sweep has removed nothing and no session was evicted. After
  a \<^verbatim>\<open>delete_session\<close> that returned \<^verbatim>\<open>True\<close> the next \<^verbatim>\<open>create_session\<close> is not rejected for
  capacity, and when creating the directory and writing the file succeed it returns the
  new id and records the session.
\<close>

theorem capacity_enforcement:
  assumes "int (length (sessions m)) = max_sessions m"
    and "\<forall>p \<in> set (sessions m). \<not> expired sweep_time m (snd p)"
  shows "create_session sweep_time now new_id file_content fname m =
           (Inl (RuntimeError ''Maximum number of sessions reached''), m) \<and>
         (delete_session a m = (True, m1) \<longrightarrow>
            fst (create_session sweep_time' now' new_id' file_content' fname' m1) \<noteq>
              Inl (RuntimeError ''Maximum number of sessions reached'') \<and>
            (makedirs (disk m1) (path_join (upload_dir m1) new_id') = Inr d1 \<and>
             write_file d1 (path_join (path_join (upload_dir m1) new_id') fname') file_content'
               = Inr d2 \<longrightarrow>
               fst (create_session sweep_time' now' new_id' file_content' fname' m1) =
                 Inr (new_id', path_join (path_join (upload_dir m1) new_id') fname') \<and>
               map_of (sessions (snd (create_session sweep_time' now' new_id' file_content'
                 fname' m1))) new_id' \<noteq> None))"
proof -
  have first: "create_session sweep_time now new_id file_content fname m =
           (Inl (RuntimeError ''Maximum number of sessions reached''), m)"
    unfolding create_session_def
    by (simp add: assms(1) cleanup_none_expired [OF assms(2)] Let_def)
  have second: "fst (create_session sweep_time' now' new_id' file_content' fname' m1) \<noteq>
              Inl (RuntimeError ''Maximum number of sessions reached'') \<and>
            (makedirs (disk m1) (path_join (upload_dir m1) new_id') = Inr d1 \<and>
             write_file d1 (path_join (path_join (upload_dir m1) new_id') fname') file_content'
               = Inr d2 \<longrightarrow>
               fst (create_session sweep_time' now' new_id' file_content' fname' m1) =
                 Inr (new_id', path_join (path_join (upload_dir m1) new_id') fname') \<and>
               map_of (sessions (snd (create_session sweep_time' now' new_id' file_content'
                 fname' m1))) new_id' \<noteq> None)"
    if del: "delete_session a m = (True, m1)"
  proof -
    from delete_session_True [OF del]
    have present: "map_of (sessions m) a \<noteq> None"
      and s1: "sessions m1 = AList.delete a (sessions m)"
      and mx: "max_sessions m1 = max_sessions m"
      by simp_all
    from length_delete_less [OF present] have "length (sessions m1) < length (sessions m)"
      by (simp add: s1)
    with assms(1) mx have below: "int (length (sessions m1)) < max_sessions m1"
      by simp
    show ?thesis
      using makedirs_no_RuntimeError [of "disk m1" "path_join (upload_dir m1) new_id'"]
        write_file_no_RuntimeError
      by (auto simp: create_session_below_limit [OF below] update_conv'
          split: sum.splits)
  qed
  from first second show ?thesis
    by blast
qed



lemma store5_eval:
  "delete_session ''a'' store2 =
     (True, store2\<lparr>disk := disk4, sessions := [(''b'', session_b)]\<rparr>)"
  unfolding delete_session_def
  by (simp add: store2_eq store0_def session_fields exists_dir_a rmtree_a)

lemma store5_eq: "store5 = store2\<lparr>disk := disk4, sessions := [(''b'', session_b)]\<rparr>"
  by (simp add: store5_def store5_eval)

lemma disk4_simps:
  "disk4 [] = Some Dir" "disk4 [''up''] = Some Dir" "disk4 [''up'', ''b''] = Some Dir"
  "disk4 [''up'', ''a''] = None" "disk4 [''up'', ''c''] = None"
  "disk4 [''up'', ''c'', ''p.stl''] = None"
  by (simp_all add: disk4_def disk2_simps disk2_def disk1_def disk0_simps)

lemma makedirs_c: "makedirs disk4 ''up/c'' = Inr (disk4([''up'', ''c''] \<mapsto> Dir))"
  by (simp add: makedirs_def disk4_simps)

lemma write_c:
  "write_file (disk4([''up'', ''c''] \<mapsto> Dir)) ''up/c/p.stl'' ''solid c'' =
     Inr (disk4([''up'', ''c''] \<mapsto> Dir, [''up'', ''c'', ''p.stl''] \<mapsto> File ''solid c''))"
  by (simp add: write_file_def resolve_def disk4_simps)

lemma store5_fields:
  "disk store5 = disk4" "upload_dir store5 = ''up''" "max_sessions store5 = 2"
  "sessions store5 = [(''b'', session_b)]"
  by (simp_all add: store5_eq store2_eq store0_def)

lemma store2_fields:
  "sessions store2 = [(''a'', session_a), (''b'', session_b)]" "max_sessions store2 = 2"
  "session_timeout store2 = 3600"
  by (simp_all add: store2_eq store0_def)

theorem capacity_enforcement_witness:
  "int (length (sessions store2)) = max_sessions store2 \<and>
   \<not> expired 10 store2 session_a \<and> \<not> expired 10 store2 session_b \<and>
   create_session 10 10 ''c'' ''solid c'' ''p.stl'' store2 =
     (Inl (RuntimeError ''Maximum number of sessions reached''), store2) \<and>
   delete_session ''a'' store2 = (True, store5) \<and>
   fst (create_session 11 11 ''c'' ''solid c'' ''p.stl'' store5) = Inr (''c'', ''up/c/p.stl'') \<and>
   map_of (sessions (snd (create_session 11 11 ''c'' ''solid c'' ''p.stl'' store5))) ''c''
     \<noteq> None"
proof -
  have cap: "int (length (sessions store2)) = max_sessions store2"
    by (simp add: store2_fields)
  have la: "\<not> expired 10 store2 session_a" and lb: "\<not> expired 10 store2 session_b"
    by (simp_all add: expired_def store2_fields session_fields)
  then have live: "\<forall>p \<in> set (sessions store2). \<not> expired 10 store2 (snd p)"
    by (simp add: store2_fields)
  have del: "delete_session ''a'' store2 = (True, store5)"
    by (simp add: store5_eval store5_eq)
  have mk: "makedirs (disk store5) (path_join (upload_dir store5) ''c'') =
              Inr (disk4([''up'', ''c''] \<mapsto> Dir))"
    by (simp add: store5_fields path_join_def makedirs_c)
  have wr: "write_file (disk4([''up'', ''c''] \<mapsto> Dir))
              (path_join (path_join (upload_dir store5) ''c'') ''p.stl'') ''solid c'' =
              Inr (disk4([''up'', ''c''] \<mapsto> Dir, [''up'', ''c'', ''p.stl''] \<mapsto> File ''solid c''))"
    by (simp add: store5_fields path_join_def write_c)
  have pj: "path_join (path_join (upload_dir store5) ''c'') ''p.stl'' = ''up/c/p.stl''"
    by (simp add: store5_fields path_join_def)
  from capacity_enforcement [OF cap live, of 10 "''c''" "''solid c''" "''p.stl''" "''a''" store5
      11 11 "''c''" "''solid c''" "''p.stl''" "disk4([''up'', ''c''] \<mapsto> Dir)"
      "disk4([''up'', ''c''] \<mapsto> Dir, [''up'', ''c'', ''p.stl''] \<mapsto> File ''solid c'')"]
    del mk wr
  have "create_session 10 10 ''c'' ''solid c'' ''p.stl'' store2 =
     (Inl (RuntimeError ''Maximum number of sessions reached''), store2) \<and>
   fst (create_session 11 11 ''c'' ''solid c'' ''p.stl'' store5) = Inr (''c'', ''up/c/p.stl'') \<and>
   map_of (sessions (snd (create_session 11 11 ''c'' ''solid c'' ''p.stl'' store5))) ''c''
     \<noteq> None"
    by (simp add: pj)
  with cap la lb del show ?thesis
    by blast
qed



subsection \<open>What deleting one session leaves of another\<close>

text \<open>
  Deleting session \<open>a\<close> leaves the metadata record and the materialised instance of every
  other session \<open>b\<close> as they were, and no object of the object store changes; a later
  \<^verbatim>\<open>get_stl_tools(b)\<close> returns the reference it returned before.
\<close>

lemma delete_session_frame:
  assumes "b \<noteq> a"
  shows "map_of (sessions (snd (delete_session a m))) b = map_of (sessions m) b \<and>
         map_of (stl_instances (snd (delete_session a m))) b = map_of (stl_instances m) b \<and>
         objects (snd (delete_session a m)) = objects m"
  using assms unfolding delete_session_def
  by (auto simp: Let_def split: option.splits sum.splits)

lemma get_stl_tools_materialised:
  assumes "map_of (sessions m) b = Some s" and "map_of (stl_instances m) b = Some r"
  shows "get_stl_tools parse b m = (Some r, m\<lparr>cache_hits := cache_hits m + 1\<rparr>)"
  using assms by (simp add: get_stl_tools_def)

lemma get_stl_tools_after_delete:
  assumes "b \<noteq> a" and "map_of (sessions m) b = Some s" and "map_of (stl_instances m) b = Some r"
  shows "fst (get_stl_tools parse b (snd (delete_session a m))) = Some r \<and>
         objects (snd (get_stl_tools parse b (snd (delete_session a m)))) r = objects m r"
proof -
  from delete_session_frame [OF assms(1), of m] assms(2,3)
  have s: "map_of (sessions (snd (delete_session a m))) b = Some s"
    and i: "map_of (stl_instances (snd (delete_session a m))) b = Some r"
    and ob: "objects (snd (delete_session a m)) = objects m"
    by simp_all
  show ?thesis
    by (simp add: get_stl_tools_materialised [OF s i] ob)
qed

lemma store3_fields:
  "sessions store3 = [(''a'', session_a), (''b'', session_b)]"
  "stl_instances store3 = [(''b'', 0)]"
  "disk store3 = disk2"
  "objects store3 0 = Some (loaded ''up/b/../a/n.stl'' flat_triangle)"
  by (simp_all add: store3_eq store2_eq store0_def)

lemma store4_eq:
  "store4 = store3\<lparr>lru := [], disk := disk4, sessions := [(''b'', session_b)]\<rparr>"
  by (simp add: store4_def store4_eval)

lemma read_b_after:
  "read_file disk4 ''up/b/../a/n.stl'' = Inl (FileNotFoundError ''No such file or directory'')"
  by (simp add: read_file_def resolve_def disk4_simps)

text \<open>
  C10, at the failing input. Session \<open>b\<close> was uploaded with the file name \<open>../a/n.stl\<close>,
  so its stored bytes lie in the directory of session \<open>a\<close>. Before the delete the file
  of \<open>b\<close> reads \<open>solid b\<close>. \<^verbatim>\<open>delete_session(a)\<close> returns \<^verbatim>\<open>True\<close>; the record of \<open>b\<close>, its
  materialised instance and the result of \<^verbatim>\<open>get_stl_tools(b)\<close> are what they were, but the
  stored bytes of \<open>b\<close> are gone.
\<close>

theorem delete_session_removes_foreign_file:
  "store0 = projr (new_session_manager ''up'' 3600 2 empty_disk) \<and>
   fst (create_session 0 0 ''a'' ''solid a'' ''m.stl'' store0) = Inr (''a'', ''up/a/m.stl'') \<and>
   fst (create_session 1 1 ''b'' ''solid b'' ''../a/n.stl'' store1) =
     Inr (''b'', ''up/b/../a/n.stl'') \<and>
   fst (get_stl_tools accepting_parser ''b'' store2) = Some 0 \<and>
   map_of (sessions store3) ''b'' = Some session_b \<and>
   map_of (stl_instances store3) ''b'' = Some 0 \<and>
   read_file (disk store3) (session_file_path session_b) = Inr ''solid b'' \<and>
   delete_session ''a'' store3 = (True, store4) \<and>
   map_of (sessions store4) ''b'' = Some session_b \<and>
   map_of (stl_instances store4) ''b'' = Some 0 \<and>
   objects store4 0 = objects store3 0 \<and>
   fst (get_stl_tools accepting_parser ''b'' store4) = Some 0 \<and>
   read_file (disk store4) (session_file_path session_b) =
     Inl (FileNotFoundError ''No such file or directory'')"
proof -
  have "store0 = projr (new_session_manager ''up'' 3600 2 empty_disk)"
    by (simp add: new_session_manager_store0)
  moreover have "fst (create_session 0 0 ''a'' ''solid a'' ''m.stl'' store0) =
      Inr (''a'', ''up/a/m.stl'')"
    by (simp add: store1_eval)
  moreover have "fst (create_session 1 1 ''b'' ''solid b'' ''../a/n.stl'' store1) =
     Inr (''b'', ''up/b/../a/n.stl'')"
    by (simp add: store2_eval)
  moreover have "fst (get_stl_tools accepting_parser ''b'' store2) = Some 0"
    by (simp add: store3_eval)
  moreover have "map_of (sessions store3) ''b'' = Some session_b"
    "map_of (stl_instances store3) ''b'' = Some 0"
    by (simp_all add: store3_fields)
  moreover have "read_file (disk store3) (session_file_path session_b) = Inr ''solid b''"
    by (simp add: store3_fields session_fields read_b_before)
  moreover have "delete_session ''a'' store3 = (True, store4)"
    by (simp add: store4_eval store4_eq)
  moreover have "map_of (sessions store4) ''b'' = Some session_b"
    "map_of (stl_instances store4) ''b'' = Some 0"
    "objects store4 0 = objects store3 0"
    by (simp_all add: store4_eq store3_fields)
  moreover have "fst (get_stl_tools accepting_parser ''b'' store4) = Some 0"
    by (simp add: get_stl_tools_def store4_eq store3_fields)
  moreover have "read_file (disk store4) (session_file_path session_b) =
     Inl (FileNotFoundError ''No such file or directory'')"
    by (simp add: store4_eq session_fields read_b_after)
  ultimately show ?thesis
    by blast
qed


end
